theory Spec2Isabelle
  imports Main "HOL-Library.Sublist"
begin

section \<open>Go values used by the provider\<close>

subsection \<open>Framework attribute values\<close>

text \<open>
  A \<^verbatim>\<open>types.String\<close> (\<^verbatim>\<open>types.Bool\<close>, \<^verbatim>\<open>types.Set\<close>) of the plugin framework is
  null, unknown or a known value. \<^verbatim>\<open>IsNull\<close> holds of the null value only,
  \<^verbatim>\<open>ValueString\<close> of a null or unknown value is the empty string, and \<^verbatim>\<open>Equal\<close>
  compares the state and the value.
\<close>

datatype tf_string = StringNull | StringUnknown | StringValue string

fun String_IsNull :: "tf_string \<Rightarrow> bool" where
  "String_IsNull StringNull = True"
| "String_IsNull _ = False"

fun String_IsUnknown :: "tf_string \<Rightarrow> bool" where
  "String_IsUnknown StringUnknown = True"
| "String_IsUnknown _ = False"

fun ValueString :: "tf_string \<Rightarrow> string" where
  "ValueString (StringValue s) = s"
| "ValueString _ = []"

definition String_Equal :: "tf_string \<Rightarrow> tf_string \<Rightarrow> bool" where
  "String_Equal a b = (a = b)"

datatype tf_bool = BoolNull | BoolUnknown | BoolValue bool

fun ValueBool :: "tf_bool \<Rightarrow> bool" where
  "ValueBool (BoolValue b) = b"
| "ValueBool _ = False"

definition Bool_Equal :: "tf_bool \<Rightarrow> tf_bool \<Rightarrow> bool" where
  "Bool_Equal a b = (a = b)"

text \<open>A set of strings keeps the elements it was built from, in the order given.\<close>

datatype tf_set = SetNull | SetUnknown | SetValue "string list"

datatype tf_list = ListNull | ListUnknown | ListValue "string list"

subsection \<open>Errors of the client (errors.go)\<close>

text \<open>The seven sentinel errors declared in the client package.\<close>

datatype sentinel =
    ErrNotFound | ErrUnauthorized | ErrForbidden | ErrBadRequest
  | ErrConflict | ErrRateLimited | ErrInternalServer

record ValidationError =
  ve_Field :: string
  ve_Code :: string
  ve_Message :: string

record APIError =
  StatusCode :: int
  Code :: string
  Message :: string
  Errors :: "ValidationError list"

text \<open>
  A Go error value as the provider meets it: one of the sentinels, an \<^verbatim>\<open>*APIError\<close>,
  an error wrapped by \<^verbatim>\<open>fmt.Errorf("...: %w", err)\<close>, or an error of another package
  (transport failure, context cancellation, JSON failure) that wraps nothing.
\<close>

datatype go_error =
    Sentinel sentinel
  | APIErr APIError
  | Wrapf string go_error
  | Other string

text \<open>\<^verbatim>\<open>func (e *APIError) Unwrap() error\<close>; \<open>None\<close> is Go's nil.\<close>

definition APIError_Unwrap :: "APIError \<Rightarrow> sentinel option" where
  "APIError_Unwrap e =
     (if StatusCode e = 404 then Some ErrNotFound
      else if StatusCode e = 401 then Some ErrUnauthorized
      else if StatusCode e = 403 then Some ErrForbidden
      else if StatusCode e = 400 then Some ErrBadRequest
      else if StatusCode e = 409 then Some ErrConflict
      else if StatusCode e = 429 then Some ErrRateLimited
      else if StatusCode e \<ge> 500 then Some ErrInternalServer
      else None)"

text \<open>
  \<^verbatim>\<open>errors.Is(err, target)\<close> for a sentinel target: it compares the error with the
  target and otherwise follows \<^verbatim>\<open>Unwrap\<close>. A sentinel and an error of another package
  unwrap to nothing; an \<^verbatim>\<open>*APIError\<close> is never identical to a sentinel and unwraps
  to the sentinel of its status code, which unwraps no further.
\<close>

fun errors_Is :: "go_error \<Rightarrow> sentinel \<Rightarrow> bool" where
  "errors_Is (Sentinel s) target = (s = target)"
| "errors_Is (APIErr e) target = (APIError_Unwrap e = Some target)"
| "errors_Is (Wrapf msg err) target = errors_Is err target"
| "errors_Is (Other msg) target = False"

definition IsNotFound :: "go_error \<Rightarrow> bool" where
  "IsNotFound err = errors_Is err ErrNotFound"

definition IsUnauthorized :: "go_error \<Rightarrow> bool" where
  "IsUnauthorized err = errors_Is err ErrUnauthorized"

definition IsForbidden :: "go_error \<Rightarrow> bool" where
  "IsForbidden err = errors_Is err ErrForbidden"

definition IsBadRequest :: "go_error \<Rightarrow> bool" where
  "IsBadRequest err = errors_Is err ErrBadRequest"

definition IsConflict :: "go_error \<Rightarrow> bool" where
  "IsConflict err = errors_Is err ErrConflict"

definition IsRateLimited :: "go_error \<Rightarrow> bool" where
  "IsRateLimited err = errors_Is err ErrRateLimited"

definition IsInternalServerError :: "go_error \<Rightarrow> bool" where
  "IsInternalServerError err = errors_Is err ErrInternalServer"

text \<open>Decimal rendering of a status code, for \<^verbatim>\<open>fmt.Sprintf("... %d", statusCode)\<close>.\<close>

definition digit_char :: "nat \<Rightarrow> char" where
  "digit_char d = ''0123456789'' ! (d mod 10)"

function string_of_nat :: "nat \<Rightarrow> string" where
  "string_of_nat n =
     (if n < 10 then [digit_char n] else string_of_nat (n div 10) @ [digit_char (n mod 10)])"
  by pat_completeness auto
termination
  by (relation "measure id") auto

definition string_of_int :: "int \<Rightarrow> string" where
  "string_of_int i = (if i < 0 then CHR ''-'' # string_of_nat (nat (- i)) else string_of_nat (nat i))"

text \<open>
  \<^verbatim>\<open>parseAPIError(statusCode, body)\<close>. \<^verbatim>\<open>json.Unmarshal\<close> belongs to the standard
  library and is a parameter: given the body and the error value built so far it returns
  the value after decoding and whether decoding succeeded.
\<close>

definition default_message :: "int \<Rightarrow> string" where
  "default_message statusCode =
     (if statusCode = 404 then ''The requested resource was not found''
      else if statusCode = 401 then ''Invalid API key or authentication failed''
      else if statusCode = 403 then ''Access denied to this resource''
      else if statusCode = 400 then ''The request was invalid or malformed''
      else if statusCode = 409 then ''The resource already exists or conflicts with existing data''
      else if statusCode = 429 then ''Rate limit exceeded, please retry later''
      else if statusCode = 422 then ''The request was well-formed but contained invalid data''
      else if statusCode \<ge> 500 then ''WorkOS service encountered an internal error''
      else ''Unexpected error (HTTP '' @ string_of_int statusCode @ '')'')"

definition parseAPIError ::
  "(string \<Rightarrow> APIError \<Rightarrow> APIError \<times> bool) \<Rightarrow> int \<Rightarrow> string \<Rightarrow> APIError" where
  "parseAPIError unmarshal statusCode body =
     (let apiErr = \<lparr>StatusCode = statusCode, Code = [], Message = [], Errors = []\<rparr>;
          apiErr = (if length body > 0
                    then (case unmarshal body apiErr of
                            (decoded, ok) \<Rightarrow> if ok then decoded else decoded\<lparr>Message := body\<rparr>)
                    else apiErr)
      in if Message apiErr = [] then apiErr\<lparr>Message := default_message statusCode\<rparr>
         else apiErr)"

subsection \<open>Machine integers and durations\<close>

text \<open>
  \<^verbatim>\<open>time.Duration\<close> is an \<^verbatim>\<open>int64\<close> count of nanoseconds; its arithmetic wraps
  around. Integer division truncates towards zero.
\<close>

definition int64_wrap :: "int \<Rightarrow> int" where
  "int64_wrap x = (x + 2 ^ 63) mod 2 ^ 64 - 2 ^ 63"

definition Duration_mul :: "int \<Rightarrow> int \<Rightarrow> int" where
  "Duration_mul a b = int64_wrap (a * b)"

definition Duration_add :: "int \<Rightarrow> int \<Rightarrow> int" where
  "Duration_add a b = int64_wrap (a + b)"

definition go_quot :: "int \<Rightarrow> int \<Rightarrow> int" where
  "go_quot a b = sgn a * sgn b * (\<bar>a\<bar> div \<bar>b\<bar>)"

definition Second :: int where
  "Second = 1000000000"

definition MaxRetries :: nat where
  "MaxRetries = 3"

definition BaseRetryDelay :: int where
  "BaseRetryDelay = 1 * Second"

definition MaxRetryDelay :: int where
  "MaxRetryDelay = 30 * Second"

text \<open>
  \<^verbatim>\<open>strconv.Atoi\<close> in base 10 for a 64-bit \<^verbatim>\<open>int\<close>: an optional sign, then at least
  one decimal digit and nothing else; a value outside the \<^verbatim>\<open>int\<close> range is an error.
\<close>

definition digit_of :: "char \<Rightarrow> int option" where
  "digit_of c = map_of
     [(CHR ''0'', 0), (CHR ''1'', 1), (CHR ''2'', 2), (CHR ''3'', 3), (CHR ''4'', 4),
      (CHR ''5'', 5), (CHR ''6'', 6), (CHR ''7'', 7), (CHR ''8'', 8), (CHR ''9'', 9)] c"

fun digits_value :: "int \<Rightarrow> string \<Rightarrow> int option" where
  "digits_value acc [] = Some acc"
| "digits_value acc (c # cs) =
     (case digit_of c of None \<Rightarrow> None | Some d \<Rightarrow> digits_value (acc * 10 + d) cs)"

definition Atoi :: "string \<Rightarrow> int option" where
  "Atoi s =
     (case s of
        [] \<Rightarrow> None
      | c # cs \<Rightarrow>
          (let neg = (c = CHR ''-'');
               ds = (if c = CHR ''-'' \<or> c = CHR ''+'' then cs else s)
           in if ds = [] then None
              else (case digits_value 0 ds of
                      None \<Rightarrow> None
                    | Some v \<Rightarrow>
                        (let n = (if neg then - v else v)
                         in if n < - (2 ^ 63) \<or> 2 ^ 63 - 1 < n then None else Some n))))"

text \<open>
  \<^verbatim>\<open>time.Until(t)\<close>: the difference to the current time, saturated at the largest and
  smallest \<^verbatim>\<open>Duration\<close>. Instants are nanoseconds on an unbounded axis.
\<close>

definition time_Until :: "int \<Rightarrow> int \<Rightarrow> int" where
  "time_Until now t = max (- (2 ^ 63)) (min (2 ^ 63 - 1) (t - now))"

text \<open>
  \<^verbatim>\<open>rand.Int63n(n)\<close> panics for \<open>n \<le> 0\<close> and otherwise returns a number in
  \<open>[0, n)\<close>; the number is taken from a raw draw \<open>r\<close> of the generator. \<open>None\<close>
  is the panic.
\<close>

definition Int63n :: "int \<Rightarrow> int \<Rightarrow> int option" where
  "Int63n r n = (if n \<le> 0 then None else Some (r mod n))"

text \<open>
  \<^verbatim>\<open>time.Duration(math.Pow(2, float64(attempt)))\<close>: a power of two below \<open>2^63\<close> is
  exact in \<^verbatim>\<open>float64\<close> and converts exactly; the conversion of a larger value is
  implementation-specific in Go and is not given a value here.
\<close>

definition pow2_Duration :: "nat \<Rightarrow> int option" where
  "pow2_Duration attempt = (if attempt < 63 then Some (2 ^ attempt) else None)"

section \<open>Transport layer (client.go)\<close>

text \<open>
  What \<^verbatim>\<open>doRequest\<close> and \<^verbatim>\<open>parseResponse\<close> read of a response: the status code,
  \<^verbatim>\<open>Header.Get("Retry-After")\<close> (empty when the header is absent), the body, and the
  error of \<^verbatim>\<open>io.ReadAll\<close> when the body cannot be read to its end.
\<close>

record response =
  resp_StatusCode :: int
  resp_RetryAfter :: string
  resp_Body :: string
  resp_ReadErr :: "string option"

text \<open>
  \<^verbatim>\<open>calculateRetryDelay(resp, attempt)\<close>, with \<^verbatim>\<open>http.ParseTime\<close>, the current time
  and the generator's draw as parameters. The result is a \<^verbatim>\<open>Duration\<close>; \<open>None\<close> is a
  panic.
\<close>

definition calculateRetryDelay ::
  "(string \<Rightarrow> int option) \<Rightarrow> int \<Rightarrow> int \<Rightarrow> response \<Rightarrow> nat \<Rightarrow> int option" where
  "calculateRetryDelay parseTime now r resp attempt =
     (let retryAfter = resp_RetryAfter resp;
          fromHeader =
            (if retryAfter \<noteq> []
             then (case Atoi retryAfter of
                     Some seconds \<Rightarrow> Some (Duration_mul seconds Second)
                   | None \<Rightarrow>
                       (case parseTime retryAfter of
                          Some t \<Rightarrow> Some (time_Until now t)
                        | None \<Rightarrow> None))
             else None)
      in case fromHeader of
           Some d \<Rightarrow> Some d
         | None \<Rightarrow>
             (case pow2_Duration attempt of
                None \<Rightarrow> None
              | Some p \<Rightarrow>
                  (let delay = Duration_mul p BaseRetryDelay;
                       delay = (if delay > MaxRetryDelay then MaxRetryDelay else delay)
                   in case Int63n r (go_quot delay 4) of
                        None \<Rightarrow> None
                      | Some jitter \<Rightarrow> Some (Duration_add delay jitter))))"

text \<open>
  The world \<^verbatim>\<open>doRequest\<close> runs in. \<open>env_Do i\<close> is what \<^verbatim>\<open>httpClient.Do\<close> returns on
  attempt \<open>i\<close>; \<open>env_CtxDone i\<close> says that the context is done before the wait after
  attempt \<open>i\<close> is over; \<open>env_CtxErr\<close> is what \<^verbatim>\<open>ctx.Err()\<close> then reports;
  \<open>env_NewRequestErr\<close> is the failure of \<^verbatim>\<open>http.NewRequestWithContext\<close>, which
  depends on the method and the URL only. The other fields feed
  \<open>calculateRetryDelay\<close> and \<open>parseAPIError\<close>.
\<close>

datatype do_result = DoErr string | DoResp response

record transport_env =
  env_Do :: "nat \<Rightarrow> do_result"
  env_CtxDone :: "nat \<Rightarrow> bool"
  env_CtxErr :: string
  env_NewRequestErr :: "string option"
  env_ParseTime :: "string \<Rightarrow> int option"
  env_Now :: "nat \<Rightarrow> int"
  env_Rand :: "nat \<Rightarrow> int"
  env_Unmarshal :: "string \<Rightarrow> APIError \<Rightarrow> APIError \<times> bool"

text \<open>
  A request body is a Go value that \<^verbatim>\<open>json.Marshal\<close> either turns into a JSON text
  or rejects with an error.
\<close>

datatype body = Marshals string | MarshalFails string

datatype http_method = GET | POST | PUT | PATCH | DELETE

record request =
  req_Method :: http_method
  req_Path :: string
  req_Body :: "string option"

text \<open>
  The outcome of \<^verbatim>\<open>doRequest\<close>: the returned pair (\<open>Inl\<close> the error, \<open>Inr\<close> the
  response; \<open>None\<close> a panic), together with the requests handed to
  \<^verbatim>\<open>httpClient.Do\<close> and the delays waited for, in order.
\<close>

record do_outcome =
  out_Result :: "(go_error + response) option"
  out_Requests :: "request list"
  out_Waits :: "int list"

definition marshal_body :: "body option \<Rightarrow> string option" where
  "marshal_body b = (case b of Some (Marshals js) \<Rightarrow> Some js | _ \<Rightarrow> None)"

text \<open>The \<^verbatim>\<open>for attempt := 0; attempt <= MaxRetries; attempt++\<close> loop of \<^verbatim>\<open>doRequest\<close>.\<close>

function doRequest_loop ::
  "transport_env \<Rightarrow> http_method \<Rightarrow> string \<Rightarrow> body option \<Rightarrow> nat \<Rightarrow> do_outcome" where
  "doRequest_loop env method path b attempt =
     (if MaxRetries < attempt
      then \<lparr>out_Result = Some (Inl (Other ''max retries exceeded'')),
            out_Requests = [], out_Waits = []\<rparr>
      else
        (case env_NewRequestErr env of
           Some e \<Rightarrow>
             \<lparr>out_Result = Some (Inl (Wrapf ''failed to create request'' (Other e))),
              out_Requests = [], out_Waits = []\<rparr>
         | None \<Rightarrow>
             (let req = \<lparr>req_Method = method, req_Path = path, req_Body = marshal_body b\<rparr> in
              case env_Do env attempt of
                DoErr e \<Rightarrow>
                  \<lparr>out_Result = Some (Inl (Wrapf ''request failed'' (Other e))),
                   out_Requests = [req], out_Waits = []\<rparr>
              | DoResp resp \<Rightarrow>
                  if resp_StatusCode resp = 429
                  then
                    (if attempt = MaxRetries
                     then \<lparr>out_Result = Some (Inr resp), out_Requests = [req], out_Waits = []\<rparr>
                     else
                       (case calculateRetryDelay (env_ParseTime env) (env_Now env attempt)
                               (env_Rand env attempt) resp attempt of
                          None \<Rightarrow> \<lparr>out_Result = None, out_Requests = [req], out_Waits = []\<rparr>
                        | Some delay \<Rightarrow>
                            if env_CtxDone env attempt
                            then \<lparr>out_Result = Some (Inl (Other (env_CtxErr env))),
                                  out_Requests = [req], out_Waits = [delay]\<rparr>
                            else
                              (let rest = doRequest_loop env method path b (Suc attempt)
                               in rest\<lparr>out_Requests := req # out_Requests rest,
                                       out_Waits := delay # out_Waits rest\<rparr>)))
                  else \<lparr>out_Result = Some (Inr resp), out_Requests = [req], out_Waits = []\<rparr>)))"
  by pat_completeness auto
termination
  by (relation "measure (\<lambda>(env, method, path, b, attempt). Suc MaxRetries - attempt)") auto

definition doRequest ::
  "transport_env \<Rightarrow> http_method \<Rightarrow> string \<Rightarrow> body option \<Rightarrow> do_outcome" where
  "doRequest env method path b =
     (case b of
        Some (MarshalFails e) \<Rightarrow>
          \<lparr>out_Result = Some (Inl (Wrapf ''failed to marshal request body'' (Other e))),
           out_Requests = [], out_Waits = []\<rparr>
      | _ \<Rightarrow> doRequest_loop env method path b 0)"

text \<open>
  \<^verbatim>\<open>parseResponse(resp, target)\<close> with a nil target, as \<^verbatim>\<open>Delete\<close> calls it: an
  error (\<open>Some\<close>) when the body cannot be read or the status is 400 or more, success
  (\<open>None\<close>) otherwise.
\<close>

definition parseResponse_nil :: "transport_env \<Rightarrow> response \<Rightarrow> go_error option" where
  "parseResponse_nil env resp =
     (case resp_ReadErr resp of
        Some e \<Rightarrow> Some (Wrapf ''failed to read response body'' (Other e))
      | None \<Rightarrow>
          if resp_StatusCode resp \<ge> 400
          then Some (APIErr (parseAPIError (env_Unmarshal env) (resp_StatusCode resp) (resp_Body resp)))
          else None)"

text \<open>
  \<^verbatim>\<open>func (c *Client) Delete(ctx, path) error\<close>. The outer \<open>None\<close> is a panic inside
  \<^verbatim>\<open>doRequest\<close>; \<open>Some None\<close> is the nil error.
\<close>

definition Client_Delete :: "transport_env \<Rightarrow> string \<Rightarrow> go_error option option" where
  "Client_Delete env path =
     (case out_Result (doRequest env DELETE path None) of
        None \<Rightarrow> None
      | Some (Inl err) \<Rightarrow> Some (Some err)
      | Some (Inr resp) \<Rightarrow> Some (parseResponse_nil env resp))"

section \<open>Entity clients\<close>

definition wrap_error :: "string \<Rightarrow> go_error option option \<Rightarrow> go_error option option" where
  "wrap_error msg r = map_option (map_option (Wrapf msg)) r"

definition DeleteOrganization :: "transport_env \<Rightarrow> string \<Rightarrow> go_error option option" where
  "DeleteOrganization env ident =
     wrap_error ''failed to delete organization'' (Client_Delete env (''/organizations/'' @ ident))"

definition DeleteUser :: "transport_env \<Rightarrow> string \<Rightarrow> go_error option option" where
  "DeleteUser env ident =
     wrap_error ''failed to delete user'' (Client_Delete env (''/user_management/users/'' @ ident))"

definition DeleteOrganizationMembership :: "transport_env \<Rightarrow> string \<Rightarrow> go_error option option" where
  "DeleteOrganizationMembership env ident =
     wrap_error ''failed to delete organization membership''
       (Client_Delete env (''/user_management/organization_memberships/'' @ ident))"

definition DeleteOrganizationRole ::
  "transport_env \<Rightarrow> string \<Rightarrow> string \<Rightarrow> go_error option option" where
  "DeleteOrganizationRole env orgID slug =
     wrap_error ''failed to delete organization role''
       (Client_Delete env (''/authorization/organizations/'' @ orgID @ ''/roles/'' @ slug))"

text \<open>
  The connection and directory clients (connections.go, directories.go): the request
  each mutating method hands to the transport layer, \<open>js\<close> being the marshalled body.
\<close>

definition CreateConnection_request :: "string \<Rightarrow> request" where
  "CreateConnection_request js =
     \<lparr>req_Method = POST, req_Path = ''/connections'', req_Body = Some js\<rparr>"

definition UpdateConnection_request :: "string \<Rightarrow> string \<Rightarrow> request" where
  "UpdateConnection_request ident js =
     \<lparr>req_Method = PUT, req_Path = ''/connections/'' @ ident, req_Body = Some js\<rparr>"

definition DeleteConnection_request :: "string \<Rightarrow> request" where
  "DeleteConnection_request ident =
     \<lparr>req_Method = DELETE, req_Path = ''/connections/'' @ ident, req_Body = None\<rparr>"

definition CreateDirectory_request :: "string \<Rightarrow> request" where
  "CreateDirectory_request js =
     \<lparr>req_Method = POST, req_Path = ''/directories'', req_Body = Some js\<rparr>"

definition UpdateDirectory_request :: "string \<Rightarrow> string \<Rightarrow> request" where
  "UpdateDirectory_request ident js =
     \<lparr>req_Method = PUT, req_Path = ''/directories/'' @ ident, req_Body = Some js\<rparr>"

definition DeleteDirectory_request :: "string \<Rightarrow> request" where
  "DeleteDirectory_request ident =
     \<lparr>req_Method = DELETE, req_Path = ''/directories/'' @ ident, req_Body = None\<rparr>"

section \<open>Provider (provider.go)\<close>

text \<open>The constructors returned by \<^verbatim>\<open>Resources\<close> and \<^verbatim>\<open>DataSources\<close>, in order.\<close>

datatype resource_ctor =
    NewOrganizationResource | NewConnectionResource | NewDirectoryResource
  | NewWebhookResource | NewUserResource | NewOrganizationMembershipResource
  | NewOrganizationRoleResource

datatype datasource_ctor =
    NewOrganizationDataSource | NewConnectionDataSource | NewDirectoryDataSource
  | NewDirectoryUserDataSource | NewDirectoryGroupDataSource | NewUserDataSource
  | NewOrganizationRoleDataSource

definition Resources :: "resource_ctor list" where
  "Resources =
     [NewOrganizationResource, NewConnectionResource, NewDirectoryResource,
      NewWebhookResource, NewUserResource, NewOrganizationMembershipResource,
      NewOrganizationRoleResource]"

definition DataSources :: "datasource_ctor list" where
  "DataSources =
     [NewOrganizationDataSource, NewConnectionDataSource, NewDirectoryDataSource,
      NewDirectoryUserDataSource, NewDirectoryGroupDataSource, NewUserDataSource,
      NewOrganizationRoleDataSource]"

text \<open>
  The lifecycle operations of a registered resource and the client request its
  \<^verbatim>\<open>Create\<close>, \<^verbatim>\<open>Update\<close> and \<^verbatim>\<open>Delete\<close> handlers issue, for the connection and the
  directory resource (resource_connection.go, resource_directory.go).
\<close>

datatype lifecycle_op = OpCreate | OpRead | OpUpdate | OpDelete | OpImport

fun ConnectionResource_request :: "lifecycle_op \<Rightarrow> string \<Rightarrow> string \<Rightarrow> request option" where
  "ConnectionResource_request OpCreate ident js = Some (CreateConnection_request js)"
| "ConnectionResource_request OpUpdate ident js = Some (UpdateConnection_request ident js)"
| "ConnectionResource_request OpDelete ident js = Some (DeleteConnection_request ident)"
| "ConnectionResource_request OpRead ident js =
     Some \<lparr>req_Method = GET, req_Path = ''/connections/'' @ ident, req_Body = None\<rparr>"
| "ConnectionResource_request OpImport ident js = None"

fun DirectoryResource_request :: "lifecycle_op \<Rightarrow> string \<Rightarrow> string \<Rightarrow> request option" where
  "DirectoryResource_request OpCreate ident js = Some (CreateDirectory_request js)"
| "DirectoryResource_request OpUpdate ident js = Some (UpdateDirectory_request ident js)"
| "DirectoryResource_request OpDelete ident js = Some (DeleteDirectory_request ident)"
| "DirectoryResource_request OpRead ident js =
     Some \<lparr>req_Method = GET, req_Path = ''/directories/'' @ ident, req_Body = None\<rparr>"
| "DirectoryResource_request OpImport ident js = None"

section \<open>Reconciliation handlers\<close>

text \<open>
  A handler takes the client method it calls as a parameter and starts from the plan and
  the prior state already decoded into their models (the source returns early when that
  decoding reports an error). A diagnostic is an error with its summary, the fixed part
  of its detail and the Go error whose text is appended to it, or a warning. A handler
  leaves the response state untouched, removes the resource or sets a new state.
\<close>

datatype diag = DiagError string string "go_error option" | DiagWarning string string

datatype 'm state_action = StateKept | StateRemoved | StateSet 'm

record 'm handler_resp =
  Diagnostics :: "diag list"
  State :: "'m state_action"

text \<open>\<^verbatim>\<open>Diagnostics.HasError()\<close>.\<close>

definition has_error :: "diag list \<Rightarrow> bool" where
  "has_error ds = list_ex (\<lambda>d. case d of DiagError a b c \<Rightarrow> True | DiagWarning a b \<Rightarrow> False) ds"

subsection \<open>Organization membership\<close>

text \<open>Timestamps are carried in their RFC 3339 rendering.\<close>

record OrganizationMembership =
  om_ID :: string
  om_Object :: string
  om_UserID :: string
  om_OrganizationID :: string
  om_RoleSlug :: string
  om_Status :: string
  om_CreatedAt :: string
  om_UpdatedAt :: string

record OrganizationMembershipCreateRequest =
  omc_UserID :: string
  omc_OrganizationID :: string
  omc_RoleSlug :: string

record OrganizationMembershipResourceModel =
  omm_ID :: tf_string
  omm_UserID :: tf_string
  omm_OrganizationID :: tf_string
  omm_RoleSlug :: tf_string
  omm_Status :: tf_string
  omm_CreatedAt :: tf_string
  omm_UpdatedAt :: tf_string

definition OrganizationMembershipResource_Create ::
  "(OrganizationMembershipCreateRequest \<Rightarrow> go_error + OrganizationMembership) \<Rightarrow>
   OrganizationMembershipResourceModel \<Rightarrow> OrganizationMembershipResourceModel handler_resp" where
  "OrganizationMembershipResource_Create CreateOrganizationMembership plan =
     (let createReq = \<lparr>omc_UserID = ValueString (omm_UserID plan),
                        omc_OrganizationID = ValueString (omm_OrganizationID plan),
                        omc_RoleSlug = []\<rparr>;
          createReq = (if \<not> String_IsNull (omm_RoleSlug plan)
                       then createReq\<lparr>omc_RoleSlug := ValueString (omm_RoleSlug plan)\<rparr>
                       else createReq)
      in case CreateOrganizationMembership createReq of
           Inl err \<Rightarrow>
             \<lparr>Diagnostics = [DiagError ''Error Creating Organization Membership''
                 ''Could not create organization membership, unexpected error: '' (Some err)],
              State = StateKept\<rparr>
         | Inr membership \<Rightarrow>
             (let plan = plan\<lparr>omm_ID := StringValue (om_ID membership),
                              omm_UserID := StringValue (om_UserID membership),
                              omm_OrganizationID := StringValue (om_OrganizationID membership)\<rparr>;
                  plan = (if om_RoleSlug membership \<noteq> []
                          then plan\<lparr>omm_RoleSlug := StringValue (om_RoleSlug membership)\<rparr>
                          else if \<not> String_IsNull (omm_RoleSlug plan)
                                  \<and> ValueString (omm_RoleSlug plan) \<noteq> []
                          then plan
                          else plan\<lparr>omm_RoleSlug := StringNull\<rparr>);
                  plan = plan\<lparr>omm_Status := StringValue (om_Status membership),
                              omm_CreatedAt := StringValue (om_CreatedAt membership),
                              omm_UpdatedAt := StringValue (om_UpdatedAt membership)\<rparr>
              in \<lparr>Diagnostics = [], State = StateSet plan\<rparr>))"

definition OrganizationMembershipResource_Read ::
  "(string \<Rightarrow> go_error + OrganizationMembership) \<Rightarrow>
   OrganizationMembershipResourceModel \<Rightarrow> OrganizationMembershipResourceModel handler_resp" where
  "OrganizationMembershipResource_Read GetOrganizationMembership state =
     (case GetOrganizationMembership (ValueString (omm_ID state)) of
        Inl err \<Rightarrow>
          if IsNotFound err then \<lparr>Diagnostics = [], State = StateRemoved\<rparr>
          else \<lparr>Diagnostics = [DiagError ''Error Reading Organization Membership''
                  (''Could not read organization membership ID '' @ ValueString (omm_ID state) @ '': '')
                  (Some err)],
                State = StateKept\<rparr>
      | Inr membership \<Rightarrow>
          (let state = state\<lparr>omm_UserID := StringValue (om_UserID membership),
                              omm_OrganizationID := StringValue (om_OrganizationID membership)\<rparr>;
               state = (if om_RoleSlug membership \<noteq> []
                        then state\<lparr>omm_RoleSlug := StringValue (om_RoleSlug membership)\<rparr>
                        else if \<not> String_IsNull (omm_RoleSlug state)
                                \<and> ValueString (omm_RoleSlug state) \<noteq> []
                        then state
                        else state\<lparr>omm_RoleSlug := StringNull\<rparr>);
               state = state\<lparr>omm_Status := StringValue (om_Status membership),
                              omm_CreatedAt := StringValue (om_CreatedAt membership),
                              omm_UpdatedAt := StringValue (om_UpdatedAt membership)\<rparr>
           in \<lparr>Diagnostics = [], State = StateSet state\<rparr>))"

definition OrganizationMembershipResource_Update ::
  "(string \<Rightarrow> go_error + OrganizationMembership) \<Rightarrow>
   OrganizationMembershipResourceModel \<Rightarrow> OrganizationMembershipResourceModel \<Rightarrow>
   OrganizationMembershipResourceModel handler_resp" where
  "OrganizationMembershipResource_Update GetOrganizationMembership plan state =
     (case GetOrganizationMembership (ValueString (omm_ID state)) of
        Inl err \<Rightarrow>
          \<lparr>Diagnostics = [DiagError ''Error Updating Organization Membership''
              ''Could not read organization membership: '' (Some err)],
           State = StateKept\<rparr>
      | Inr membership \<Rightarrow>
          (let plan = plan\<lparr>omm_ID := omm_ID state,
                           omm_UserID := StringValue (om_UserID membership),
                           omm_OrganizationID := StringValue (om_OrganizationID membership)\<rparr>;
               plan = (if om_RoleSlug membership \<noteq> []
                       then plan\<lparr>omm_RoleSlug := StringValue (om_RoleSlug membership)\<rparr>
                       else plan);
               plan = plan\<lparr>omm_Status := StringValue (om_Status membership),
                           omm_CreatedAt := omm_CreatedAt state,
                           omm_UpdatedAt := StringValue (om_UpdatedAt membership)\<rparr>
           in \<lparr>Diagnostics = [], State = StateSet plan\<rparr>))"

text \<open>
  The three-state merge as the specification words it: a non-empty value of the response
  is stored; otherwise a non-empty locally held value is kept; otherwise the value is null.
\<close>

definition three_state_merge :: "string \<Rightarrow> tf_string \<Rightarrow> tf_string" where
  "three_state_merge api held =
     (if api \<noteq> [] then StringValue api
      else if ValueString held \<noteq> [] then held
      else StringNull)"

text \<open>The role slug a handler persists; \<open>None\<close> when it sets no state.\<close>

definition persisted_role_slug ::
  "OrganizationMembershipResourceModel handler_resp \<Rightarrow> tf_string option" where
  "persisted_role_slug r = (case State r of StateSet m \<Rightarrow> Some (omm_RoleSlug m) | _ \<Rightarrow> None)"

text \<open>
  The \<^verbatim>\<open>Delete\<close> handlers return what the client's delete method returns: a panic
  below the handler (the client's \<open>None\<close>) passes through it.
\<close>

definition OrganizationMembershipResource_Delete ::
  "(string \<Rightarrow> go_error option option) \<Rightarrow> OrganizationMembershipResourceModel \<Rightarrow>
   OrganizationMembershipResourceModel handler_resp option" where
  "OrganizationMembershipResource_Delete DeleteOrganizationMembership_c state =
     (case DeleteOrganizationMembership_c (ValueString (omm_ID state)) of
        None \<Rightarrow> None
      | Some None \<Rightarrow> Some \<lparr>Diagnostics = [], State = StateKept\<rparr>
      | Some (Some err) \<Rightarrow>
          if IsNotFound err then Some \<lparr>Diagnostics = [], State = StateKept\<rparr>
          else Some \<lparr>Diagnostics = [DiagError ''Error Deleting Organization Membership''
                       ''Could not delete organization membership, unexpected error: '' (Some err)],
                     State = StateKept\<rparr>)"

subsection \<open>User\<close>

record User =
  u_ID :: string
  u_Object :: string
  u_Email :: string
  u_EmailVerified :: bool
  u_FirstName :: string
  u_LastName :: string
  u_ProfilePictureURL :: string
  u_CreatedAt :: string
  u_UpdatedAt :: string

text \<open>\<^verbatim>\<open>EmailVerified *bool\<close>: \<open>None\<close> is the nil pointer.\<close>

record UserUpdateRequest =
  uu_Email :: string
  uu_FirstName :: string
  uu_LastName :: string
  uu_EmailVerified :: "bool option"

record UserResourceModel =
  usr_ID :: tf_string
  usr_Email :: tf_string
  usr_EmailVerified :: tf_bool
  usr_FirstName :: tf_string
  usr_LastName :: tf_string
  usr_Password :: tf_string
  usr_PasswordHash :: tf_string
  usr_ProfilePictureURL :: tf_string
  usr_CreatedAt :: tf_string
  usr_UpdatedAt :: tf_string

text \<open>
  The JSON object \<^verbatim>\<open>json.Marshal\<close> writes for a \<^verbatim>\<open>UserUpdateRequest\<close>: every field
  is tagged \<^verbatim>\<open>omitempty\<close>, so an empty string and a nil pointer write no key.
\<close>

datatype json_value = JString string | JBool bool

definition UserUpdateRequest_json :: "UserUpdateRequest \<Rightarrow> (string \<times> json_value) list" where
  "UserUpdateRequest_json r =
     (if uu_Email r \<noteq> [] then [(''email'', JString (uu_Email r))] else []) @
     (if uu_FirstName r \<noteq> [] then [(''first_name'', JString (uu_FirstName r))] else []) @
     (if uu_LastName r \<noteq> [] then [(''last_name'', JString (uu_LastName r))] else []) @
     (case uu_EmailVerified r of Some b \<Rightarrow> [(''email_verified'', JBool b)] | None \<Rightarrow> [])"

text \<open>The request \<^verbatim>\<open>UserResource.Update\<close> builds from the plan and the prior state.\<close>

definition UserResource_updateReq :: "UserResourceModel \<Rightarrow> UserResourceModel \<Rightarrow> UserUpdateRequest" where
  "UserResource_updateReq plan state =
     (let updateReq = \<lparr>uu_Email = [], uu_FirstName = [], uu_LastName = [], uu_EmailVerified = None\<rparr>;
          updateReq = (if \<not> String_Equal (usr_Email plan) (usr_Email state)
                       then updateReq\<lparr>uu_Email := ValueString (usr_Email plan)\<rparr> else updateReq);
          updateReq = (if \<not> String_Equal (usr_FirstName plan) (usr_FirstName state)
                       then updateReq\<lparr>uu_FirstName := ValueString (usr_FirstName plan)\<rparr> else updateReq);
          updateReq = (if \<not> String_Equal (usr_LastName plan) (usr_LastName state)
                       then updateReq\<lparr>uu_LastName := ValueString (usr_LastName plan)\<rparr> else updateReq);
          updateReq = (if \<not> Bool_Equal (usr_EmailVerified plan) (usr_EmailVerified state)
                       then updateReq\<lparr>uu_EmailVerified := Some (ValueBool (usr_EmailVerified plan))\<rparr>
                       else updateReq)
      in updateReq)"

definition UserResource_Update ::
  "(string \<Rightarrow> UserUpdateRequest \<Rightarrow> go_error + User) \<Rightarrow>
   UserResourceModel \<Rightarrow> UserResourceModel \<Rightarrow> UserResourceModel handler_resp" where
  "UserResource_Update UpdateUser plan state =
     (case UpdateUser (ValueString (usr_ID state)) (UserResource_updateReq plan state) of
        Inl err \<Rightarrow>
          \<lparr>Diagnostics = [DiagError ''Error Updating User''
              ''Could not update user, unexpected error: '' (Some err)],
           State = StateKept\<rparr>
      | Inr user \<Rightarrow>
          (let plan = plan\<lparr>usr_ID := usr_ID state,
                           usr_Email := StringValue (u_Email user),
                           usr_EmailVerified := BoolValue (u_EmailVerified user)\<rparr>;
               plan = (if u_FirstName user \<noteq> []
                       then plan\<lparr>usr_FirstName := StringValue (u_FirstName user)\<rparr> else plan);
               plan = (if u_LastName user \<noteq> []
                       then plan\<lparr>usr_LastName := StringValue (u_LastName user)\<rparr> else plan);
               plan = (if u_ProfilePictureURL user \<noteq> []
                       then plan\<lparr>usr_ProfilePictureURL := StringValue (u_ProfilePictureURL user)\<rparr>
                       else plan\<lparr>usr_ProfilePictureURL := StringNull\<rparr>);
               plan = plan\<lparr>usr_CreatedAt := usr_CreatedAt state,
                           usr_UpdatedAt := StringValue (u_UpdatedAt user)\<rparr>
           in \<lparr>Diagnostics = [], State = StateSet plan\<rparr>))"

definition UserResource_Delete ::
  "(string \<Rightarrow> go_error option option) \<Rightarrow> UserResourceModel \<Rightarrow>
   UserResourceModel handler_resp option" where
  "UserResource_Delete DeleteUser_c state =
     (case DeleteUser_c (ValueString (usr_ID state)) of
        None \<Rightarrow> None
      | Some None \<Rightarrow> Some \<lparr>Diagnostics = [], State = StateKept\<rparr>
      | Some (Some err) \<Rightarrow>
          if IsNotFound err then Some \<lparr>Diagnostics = [], State = StateKept\<rparr>
          else Some \<lparr>Diagnostics = [DiagError ''Error Deleting User''
                       ''Could not delete user, unexpected error: '' (Some err)],
                     State = StateKept\<rparr>)"

subsection \<open>Organization\<close>

record Domain =
  dom_ID :: string
  dom_Object :: string
  dom_Domain :: string
  dom_State :: string
  dom_OrganizationID :: string
  dom_VerificationType :: string

record Organization =
  org_ID :: string
  org_Object :: string
  org_Name :: string
  org_AllowProfilesOutsideOrganization :: bool
  org_Domains :: "Domain list"
  org_CreatedAt :: string
  org_UpdatedAt :: string

record OrganizationResourceModel =
  orgm_ID :: tf_string
  orgm_Name :: tf_string
  orgm_Domains :: tf_set
  orgm_CreatedAt :: tf_string
  orgm_UpdatedAt :: tf_string

text \<open>
  \<^verbatim>\<open>types.SetValueFrom(ctx, types.StringType, elems)\<close> of the plugin framework: the
  set of the given strings, or, when two of them are equal, the unknown set together with
  one error \<^verbatim>\<open>Duplicate Set Element\<close> for every pair of equal elements (the detail
  of the error goes on to name the repeated value).
\<close>

fun duplicate_pairs :: "string list \<Rightarrow> string list" where
  "duplicate_pairs [] = []"
| "duplicate_pairs (x # xs) = filter (\<lambda>y. y = x) xs @ duplicate_pairs xs"

definition SetValueFrom :: "string list \<Rightarrow> tf_set \<times> diag list" where
  "SetValueFrom elems =
     (let diags = map (\<lambda>e. DiagError ''Duplicate Set Element''
                            ''This attribute contains duplicate values of: '' None)
                      (duplicate_pairs elems)
      in if has_error diags then (SetUnknown, diags) else (SetValue elems, diags))"

text \<open>\<^verbatim>\<open>OrganizationResource.Read\<close>.\<close>

definition OrganizationResource_Read ::
  "(string \<Rightarrow> go_error + Organization) \<Rightarrow> OrganizationResourceModel \<Rightarrow>
   OrganizationResourceModel handler_resp" where
  "OrganizationResource_Read GetOrganization state =
     (case GetOrganization (ValueString (orgm_ID state)) of
        Inl err \<Rightarrow>
          if IsNotFound err then \<lparr>Diagnostics = [], State = StateRemoved\<rparr>
          else \<lparr>Diagnostics = [DiagError ''Error Reading Organization''
                  (''Could not read organization ID '' @ ValueString (orgm_ID state) @ '': '')
                  (Some err)],
                State = StateKept\<rparr>
      | Inr org \<Rightarrow>
          (let state = state\<lparr>orgm_Name := StringValue (org_Name org),
                              orgm_CreatedAt := StringValue (org_CreatedAt org),
                              orgm_UpdatedAt := StringValue (org_UpdatedAt org)\<rparr>
           in if length (org_Domains org) > 0
              then (let domainStrings = map dom_Domain (org_Domains org)
                    in case SetValueFrom domainStrings of
                         (domains, diags) \<Rightarrow>
                           if has_error diags
                           then \<lparr>Diagnostics = diags, State = StateKept\<rparr>
                           else \<lparr>Diagnostics = diags,
                                 State = StateSet (state\<lparr>orgm_Domains := domains\<rparr>)\<rparr>)
              else \<lparr>Diagnostics = [],
                    State = StateSet (state\<lparr>orgm_Domains := SetNull\<rparr>)\<rparr>))"

definition OrganizationResource_Delete ::
  "(string \<Rightarrow> go_error option option) \<Rightarrow> OrganizationResourceModel \<Rightarrow>
   OrganizationResourceModel handler_resp option" where
  "OrganizationResource_Delete DeleteOrganization_c state =
     (case DeleteOrganization_c (ValueString (orgm_ID state)) of
        None \<Rightarrow> None
      | Some None \<Rightarrow> Some \<lparr>Diagnostics = [], State = StateKept\<rparr>
      | Some (Some err) \<Rightarrow>
          if IsNotFound err then Some \<lparr>Diagnostics = [], State = StateKept\<rparr>
          else Some \<lparr>Diagnostics = [DiagError ''Error Deleting Organization''
                       ''Could not delete organization, unexpected error: '' (Some err)],
                     State = StateKept\<rparr>)"

subsection \<open>Organization role\<close>

text \<open>
  The role and its create request are declared in a part of models.go that is not among
  the sources; their fields are the ones the handlers read and write.
\<close>

record OrganizationRole =
  role_ID :: string
  role_Slug :: string
  role_Name :: string
  role_Description :: string
  role_Type :: string
  role_Permissions :: "string list"
  role_CreatedAt :: string
  role_UpdatedAt :: string

record OrganizationRoleCreateRequest =
  orc_Slug :: string
  orc_Name :: string
  orc_Description :: string

record OrganizationRoleResourceModel =
  orm_ID :: tf_string
  orm_OrganizationID :: tf_string
  orm_Slug :: tf_string
  orm_Name :: tf_string
  orm_Description :: tf_string
  orm_Type :: tf_string
  orm_Permissions :: tf_list
  orm_CreatedAt :: tf_string
  orm_UpdatedAt :: tf_string

text \<open>The request \<^verbatim>\<open>OrganizationRoleResource.Create\<close> builds from the plan.\<close>

definition OrganizationRoleResource_createReq ::
  "OrganizationRoleResourceModel \<Rightarrow> OrganizationRoleCreateRequest" where
  "OrganizationRoleResource_createReq plan =
     (let createReq = \<lparr>orc_Slug = ValueString (orm_Slug plan),
                        orc_Name = ValueString (orm_Name plan),
                        orc_Description = []\<rparr>
      in if \<not> String_IsNull (orm_Description plan) \<and> \<not> String_IsUnknown (orm_Description plan)
         then createReq\<lparr>orc_Description := ValueString (orm_Description plan)\<rparr>
         else createReq)"

definition OrganizationRoleResource_Create ::
  "(string \<Rightarrow> OrganizationRoleCreateRequest \<Rightarrow> go_error + OrganizationRole) \<Rightarrow>
   OrganizationRoleResourceModel \<Rightarrow> OrganizationRoleResourceModel handler_resp" where
  "OrganizationRoleResource_Create CreateOrganizationRole plan =
     (case CreateOrganizationRole (ValueString (orm_OrganizationID plan))
             (OrganizationRoleResource_createReq plan) of
        Inl err \<Rightarrow>
          \<lparr>Diagnostics = [DiagError ''Error Creating Organization Role''
              ''Could not create organization role, unexpected error: '' (Some err)],
           State = StateKept\<rparr>
      | Inr role \<Rightarrow>
          (let plan = plan\<lparr>orm_ID := StringValue (role_ID role),
                           orm_Type := StringValue (role_Type role),
                           orm_Description := StringValue (role_Description role),
                           orm_CreatedAt := StringValue (role_CreatedAt role),
                           orm_UpdatedAt := StringValue (role_UpdatedAt role)\<rparr>;
               plan = (if length (role_Permissions role) > 0
                       then plan\<lparr>orm_Permissions := ListValue (role_Permissions role)\<rparr>
                       else plan\<lparr>orm_Permissions := ListValue []\<rparr>)
           in \<lparr>Diagnostics = [], State = StateSet plan\<rparr>))"

text \<open>
  What \<^verbatim>\<open>CreateOrganizationRole\<close> posts: the path under the organization and the
  request as built, of which the slug is a field.
\<close>

definition CreateOrganizationRole_sent ::
  "string \<Rightarrow> OrganizationRoleCreateRequest \<Rightarrow> http_method \<times> string \<times> OrganizationRoleCreateRequest" where
  "CreateOrganizationRole_sent orgID req =
     (POST, ''/authorization/organizations/'' @ orgID @ ''/roles'', req)"

definition OrganizationRoleResource_Delete ::
  "(string \<Rightarrow> string \<Rightarrow> go_error option option) \<Rightarrow> OrganizationRoleResourceModel \<Rightarrow>
   OrganizationRoleResourceModel handler_resp option" where
  "OrganizationRoleResource_Delete DeleteOrganizationRole_c state =
     (case DeleteOrganizationRole_c (ValueString (orm_OrganizationID state))
             (ValueString (orm_Slug state)) of
        None \<Rightarrow> None
      | Some None \<Rightarrow> Some \<lparr>Diagnostics = [], State = StateKept\<rparr>
      | Some (Some err) \<Rightarrow>
          if IsNotFound err then Some \<lparr>Diagnostics = [], State = StateKept\<rparr>
          else Some \<lparr>Diagnostics = [DiagError ''Error Deleting Organization Role''
                       ''Could not delete organization role, unexpected error: '' (Some err)],
                     State = StateKept\<rparr>)"

text \<open>
  \<^verbatim>\<open>strings.SplitN(s, sep, n)\<close> for a separator of one character and \<open>n \<ge> 0\<close>: no
  substrings for \<open>n = 0\<close>, otherwise at most \<open>n\<close>, the last one being the unsplit rest.
\<close>

fun SplitN :: "string \<Rightarrow> char \<Rightarrow> nat \<Rightarrow> string list" where
  "SplitN s sep 0 = []"
| "SplitN s sep (Suc 0) = [s]"
| "SplitN s sep (Suc (Suc n)) =
     (if sep \<in> set s
      then takeWhile (\<lambda>c. c \<noteq> sep) s # SplitN (tl (dropWhile (\<lambda>c. c \<noteq> sep) s)) sep (Suc n)
      else [s])"

text \<open>
  \<^verbatim>\<open>OrganizationRoleResource.ImportState\<close>: the diagnostics, the attributes set by
  \<^verbatim>\<open>SetAttribute\<close> in order, and the requests sent to the remote API. The handler does
  not touch the client, so it sends none.
\<close>

record import_resp =
  imp_Diagnostics :: "diag list"
  imp_Attributes :: "(string \<times> string) list"
  imp_Requests :: "request list"

definition OrganizationRoleResource_ImportState :: "string \<Rightarrow> import_resp" where
  "OrganizationRoleResource_ImportState req_ID =
     (let parts = SplitN req_ID (CHR ''/'') 2
      in if length parts \<noteq> 2 \<or> parts ! 0 = [] \<or> parts ! 1 = []
         then \<lparr>imp_Diagnostics = [DiagError ''Invalid Import ID''
                  (''Expected import ID in the format 'organization_id/slug', got: '' @ req_ID) None],
               imp_Attributes = [], imp_Requests = []\<rparr>
         else \<lparr>imp_Diagnostics = [],
               imp_Attributes = [(''organization_id'', parts ! 0), (''slug'', parts ! 1)],
               imp_Requests = []\<rparr>)"

section \<open>Reference points of the specification and sample inputs\<close>

text \<open>
  The backoff the specification describes: the base delay times two to the power of the
  attempt, capped at the maximum delay.
\<close>

definition backoff :: "nat \<Rightarrow> int" where
  "backoff attempt = min (2 ^ attempt * BaseRetryDelay) MaxRetryDelay"

text \<open>An \<^verbatim>\<open>http.ParseTime\<close> that accepts no string, and a rate-limited response.\<close>

definition ParseTime_none :: "string \<Rightarrow> int option" where
  "ParseTime_none s = None"

definition rate_limited :: "string \<Rightarrow> response" where
  "rate_limited retryAfter =
     \<lparr>resp_StatusCode = 429, resp_RetryAfter = retryAfter, resp_Body = [],
      resp_ReadErr = None\<rparr>"

text \<open>A membership the API returns without a role slug, and a model holding a given one.\<close>

definition membership_without_role :: OrganizationMembership where
  "membership_without_role =
     \<lparr>om_ID = ''om_1'', om_Object = ''organization_membership'', om_UserID = ''user_1'',
      om_OrganizationID = ''org_1'', om_RoleSlug = [], om_Status = ''active'',
      om_CreatedAt = ''2026-01-01T00:00:00Z'', om_UpdatedAt = ''2026-01-02T00:00:00Z''\<rparr>"

definition membership_model :: "tf_string \<Rightarrow> OrganizationMembershipResourceModel" where
  "membership_model slug =
     \<lparr>omm_ID = StringValue ''om_1'', omm_UserID = StringValue ''user_1'',
      omm_OrganizationID = StringValue ''org_1'', omm_RoleSlug = slug,
      omm_Status = StringValue ''active'', omm_CreatedAt = StringValue ''2026-01-01T00:00:00Z'',
      omm_UpdatedAt = StringValue ''2026-01-01T00:00:00Z''\<rparr>"

definition create_returns_without_role ::
  "OrganizationMembershipCreateRequest \<Rightarrow> go_error + OrganizationMembership" where
  "create_returns_without_role req = Inr membership_without_role"

definition get_returns_without_role :: "string \<Rightarrow> go_error + OrganizationMembership" where
  "get_returns_without_role ident = Inr membership_without_role"

text \<open>A user model with a given first name and a verified e-mail address.\<close>

definition user_model :: "string \<Rightarrow> UserResourceModel" where
  "user_model first =
     \<lparr>usr_ID = StringValue ''user_1'', usr_Email = StringValue ''ada@example.com'',
      usr_EmailVerified = BoolValue True, usr_FirstName = StringValue first,
      usr_LastName = StringValue ''Lovelace'', usr_Password = StringNull,
      usr_PasswordHash = StringNull, usr_ProfilePictureURL = StringNull,
      usr_CreatedAt = StringValue ''2026-01-01T00:00:00Z'',
      usr_UpdatedAt = StringValue ''2026-01-01T00:00:00Z''\<rparr>"

text \<open>
  A transport whose every answer is a 429 with \<^verbatim>\<open>Retry-After: 1\<close>, a response with
  status 500, and a transport that answers 429 once and 500 afterwards.
\<close>

definition env_always_429 :: transport_env where
  "env_always_429 =
     \<lparr>env_Do = (\<lambda>i. DoResp (rate_limited ''1'')), env_CtxDone = (\<lambda>i. False),
      env_CtxErr = ''context canceled'', env_NewRequestErr = None,
      env_ParseTime = ParseTime_none, env_Now = (\<lambda>i. 0), env_Rand = (\<lambda>i. 0),
      env_Unmarshal = (\<lambda>body e. (e, False))\<rparr>"

definition server_error :: response where
  "server_error =
     \<lparr>resp_StatusCode = 500, resp_RetryAfter = [], resp_Body = [], resp_ReadErr = None\<rparr>"

definition env_429_then_500 :: transport_env where
  "env_429_then_500 =
     env_always_429\<lparr>env_Do := (\<lambda>i. if i = 0 then DoResp (rate_limited []) else DoResp server_error)\<rparr>"

text \<open>
  Sample organizations, role plans, responses and API errors, and the prefix the
  changelog and the examples give to organization role slugs.
\<close>

definition acme_domain :: Domain where
  "acme_domain =
     \<lparr>dom_ID = ''org_domain_1'', dom_Object = ''organization_domain'', dom_Domain = ''acme.com'',
      dom_State = ''verified'', dom_OrganizationID = ''org_1'', dom_VerificationType = ''manual''\<rparr>"

definition organization_with :: "Domain list \<Rightarrow> Organization" where
  "organization_with ds =
     \<lparr>org_ID = ''org_1'', org_Object = ''organization'', org_Name = ''Acme'',
      org_AllowProfilesOutsideOrganization = False, org_Domains = ds,
      org_CreatedAt = ''2026-01-01T00:00:00Z'', org_UpdatedAt = ''2026-01-02T00:00:00Z''\<rparr>"

definition get_returns_organization :: "Domain list \<Rightarrow> string \<Rightarrow> go_error + Organization" where
  "get_returns_organization ds ident = Inr (organization_with ds)"

definition organization_model :: "tf_set \<Rightarrow> OrganizationResourceModel" where
  "organization_model ds =
     \<lparr>orgm_ID = StringValue ''org_1'', orgm_Name = StringValue ''Acme'', orgm_Domains = ds,
      orgm_CreatedAt = StringValue ''2026-01-01T00:00:00Z'',
      orgm_UpdatedAt = StringValue ''2026-01-01T00:00:00Z''\<rparr>"

definition role_model :: "string \<Rightarrow> OrganizationRoleResourceModel" where
  "role_model slug =
     \<lparr>orm_ID = StringUnknown, orm_OrganizationID = StringValue ''org_123'',
      orm_Slug = StringValue slug, orm_Name = StringValue ''Billing Admin'',
      orm_Description = StringNull, orm_Type = StringUnknown, orm_Permissions = ListUnknown,
      orm_CreatedAt = StringUnknown, orm_UpdatedAt = StringUnknown\<rparr>"

definition required_prefix :: string where
  "required_prefix = ''org-''"

definition not_found_response :: response where
  "not_found_response =
     \<lparr>resp_StatusCode = 404, resp_RetryAfter = [], resp_Body = [], resp_ReadErr = None\<rparr>"

definition no_content_response :: response where
  "no_content_response =
     \<lparr>resp_StatusCode = 204, resp_RetryAfter = [], resp_Body = [], resp_ReadErr = None\<rparr>"

definition env_answering :: "response \<Rightarrow> transport_env" where
  "env_answering r = env_always_429\<lparr>env_Do := (\<lambda>i. DoResp r)\<rparr>"

definition unprocessable :: APIError where
  "unprocessable =
     \<lparr>StatusCode = 422, Code = ''invalid_request_parameters'', Message = ''Validation failed'',
      Errors = [\<lparr>ve_Field = ''email'', ve_Code = ''invalid'', ve_Message = []\<rparr>]\<rparr>"

text \<open>
  A 404 response whose JSON body has a member named \<^verbatim>\<open>StatusCode\<close>, and a
  \<^verbatim>\<open>json.Unmarshal\<close> that decodes it: the field \<^verbatim>\<open>StatusCode\<close> of \<^verbatim>\<open>APIError\<close>
  carries no \<^verbatim>\<open>json\<close> tag, so the member is stored into it.
\<close>

definition status_member_body :: string where
  "status_member_body = ''{'' @ [CHR 0x22] @ ''StatusCode'' @ [CHR 0x22] @ '':500}''"

definition not_found_with_status_member :: response where
  "not_found_with_status_member =
     \<lparr>resp_StatusCode = 404, resp_RetryAfter = [], resp_Body = status_member_body,
      resp_ReadErr = None\<rparr>"

definition unmarshal_status_member :: "string \<Rightarrow> APIError \<Rightarrow> APIError \<times> bool" where
  "unmarshal_status_member b e =
     (if b = status_member_body then (e\<lparr>StatusCode := 500\<rparr>, True) else (e, False))"

definition env_status_member :: transport_env where
  "env_status_member =
     (env_answering not_found_with_status_member)\<lparr>env_Unmarshal := unmarshal_status_member\<rparr>"

text \<open>Client delete methods that fail with a given error.\<close>

definition client_fails :: "go_error \<Rightarrow> string \<Rightarrow> go_error option option" where
  "client_fails err ident = Some (Some err)"

definition role_client_fails :: "go_error \<Rightarrow> string \<Rightarrow> string \<Rightarrow> go_error option option" where
  "role_client_fails err orgID slug = Some (Some err)"

section \<open>Properties\<close>

declare doRequest_loop.simps [simp del]

subsection \<open>Organization membership: the role slug that is persisted\<close>

lemma Create_role_slug:
  "c \<lparr>omc_UserID = ValueString (omm_UserID plan),
      omc_OrganizationID = ValueString (omm_OrganizationID plan),
      omc_RoleSlug = ValueString (omm_RoleSlug plan)\<rparr> = Inr m \<Longrightarrow>
   persisted_role_slug (OrganizationMembershipResource_Create c plan)
     = Some (three_state_merge (om_RoleSlug m) (omm_RoleSlug plan))"
  by (cases "omm_RoleSlug plan")
     (simp_all add: OrganizationMembershipResource_Create_def persisted_role_slug_def
        three_state_merge_def Let_def)

lemma Read_role_slug:
  "c (ValueString (omm_ID state)) = Inr m \<Longrightarrow>
   persisted_role_slug (OrganizationMembershipResource_Read c state)
     = Some (three_state_merge (om_RoleSlug m) (omm_RoleSlug state))"
  by (cases "omm_RoleSlug state")
     (simp_all add: OrganizationMembershipResource_Read_def persisted_role_slug_def
        three_state_merge_def Let_def)

lemma Update_role_slug:
  "c (ValueString (omm_ID state)) = Inr m \<Longrightarrow>
   persisted_role_slug (OrganizationMembershipResource_Update c plan state)
     = Some (if om_RoleSlug m \<noteq> [] then StringValue (om_RoleSlug m) else omm_RoleSlug plan)"
  by (simp add: OrganizationMembershipResource_Update_def persisted_role_slug_def Let_def)

lemma Update_role_slug_merge:
  assumes "c (ValueString (omm_ID state)) = Inr m"
    and "om_RoleSlug m \<noteq> [] \<or> omm_RoleSlug plan = StringNull \<or> ValueString (omm_RoleSlug plan) \<noteq> []"
  shows "persisted_role_slug (OrganizationMembershipResource_Update c plan state)
     = Some (three_state_merge (om_RoleSlug m) (omm_RoleSlug plan))"
  using assms by (auto simp: Update_role_slug three_state_merge_def)

text \<open>
  C1. Create and Read persist the three-state merge of the response's role slug and the
  locally held one (lemmas \<open>Create_role_slug\<close>, \<open>Read_role_slug\<close>). Update stores a
  non-empty response value and otherwise leaves the planned value as it is: when the
  response carries no role slug and the planned role slug is the known empty string, the
  merge rule, Create and Read give the null value, but Update persists the empty string;
  an unknown planned value likewise stays unknown.
\<close>

theorem C1_update_misses_null_branch:
  "three_state_merge (om_RoleSlug membership_without_role) (StringValue []) = StringNull
   \<and> persisted_role_slug
        (OrganizationMembershipResource_Create create_returns_without_role
           (membership_model (StringValue []))) = Some StringNull
   \<and> persisted_role_slug
        (OrganizationMembershipResource_Read get_returns_without_role
           (membership_model (StringValue []))) = Some StringNull
   \<and> persisted_role_slug
        (OrganizationMembershipResource_Update get_returns_without_role
           (membership_model (StringValue [])) (membership_model (StringValue ''admin'')))
       = Some (StringValue [])
   \<and> persisted_role_slug
        (OrganizationMembershipResource_Update get_returns_without_role
           (membership_model StringUnknown) (membership_model (StringValue ''admin'')))
       = Some StringUnknown"
  by (simp add: OrganizationMembershipResource_Create_def OrganizationMembershipResource_Read_def
      OrganizationMembershipResource_Update_def persisted_role_slug_def three_state_merge_def
      membership_without_role_def membership_model_def create_returns_without_role_def
      get_returns_without_role_def Let_def)

theorem C1_update_misses_null_branch_witness:
  "persisted_role_slug
     (OrganizationMembershipResource_Update get_returns_without_role
        (membership_model (StringValue [])) (membership_model (StringValue ''admin'')))
   \<noteq> Some (three_state_merge (om_RoleSlug membership_without_role) (StringValue []))"
  using C1_update_misses_null_branch by simp

subsection \<open>User: the update payload\<close>

lemma updateReq_EmailVerified:
  "uu_EmailVerified (UserResource_updateReq plan state)
     = (if usr_EmailVerified plan = usr_EmailVerified state then None
        else Some (ValueBool (usr_EmailVerified plan)))"
  by (simp add: UserResource_updateReq_def Bool_Equal_def Let_def)

lemma update_payload_email_verified:
  "map_of (UserUpdateRequest_json (UserResource_updateReq plan state)) ''email_verified''
     = (if usr_EmailVerified plan = usr_EmailVerified state then None
        else Some (JBool (ValueBool (usr_EmailVerified plan))))"
  by (simp add: updateReq_EmailVerified UserUpdateRequest_json_def)

text \<open>
  C2. The update request carries \<^verbatim>\<open>email_verified\<close> only when the planned flag differs
  from the prior state (lemma \<open>update_payload_email_verified\<close>). For an update that
  changes the first name only, with the flag true in plan and state, the payload is the
  first name alone and has no \<^verbatim>\<open>email_verified\<close> key.
\<close>

theorem C2_update_omits_unchanged_email_verified:
  "UserUpdateRequest_json (UserResource_updateReq (user_model ''Augusta'') (user_model ''Ada''))
     = [(''first_name'', JString ''Augusta'')]
   \<and> map_of (UserUpdateRequest_json (UserResource_updateReq (user_model ''Augusta'') (user_model ''Ada'')))
        ''email_verified'' = None"
  by (simp add: UserResource_updateReq_def UserUpdateRequest_json_def user_model_def
      String_Equal_def Bool_Equal_def Let_def)

theorem C2_update_omits_unchanged_email_verified_witness:
  "uu_EmailVerified (UserResource_updateReq (user_model ''Augusta'') (user_model ''Ada'')) = None"
proof -
  have "map_of (UserUpdateRequest_json (UserResource_updateReq (user_model ''Augusta'') (user_model ''Ada'')))
        ''email_verified'' = None"
    using C2_update_omits_unchanged_email_verified by simp
  then show ?thesis
    by (cases "uu_EmailVerified (UserResource_updateReq (user_model ''Augusta'') (user_model ''Ada''))")
       (simp_all add: UserUpdateRequest_json_def)
qed

subsection \<open>Retry delay\<close>

lemma int64_wrap_id: "- (2 ^ 63) \<le> x \<Longrightarrow> x < 2 ^ 63 \<Longrightarrow> int64_wrap x = x"
  by (simp add: int64_wrap_def)

lemma Atoi_Nil: "Atoi [] = None"
  by (simp add: Atoi_def)

lemma retry_after_seconds:
  assumes a: "Atoi (resp_RetryAfter resp) = Some n"
    and lo: "- 9223372036 \<le> n" and hi: "n \<le> 9223372036"
  shows "calculateRetryDelay pt now r resp attempt = Some (n * Second)"
proof -
  have ne: "resp_RetryAfter resp \<noteq> []"
    using a Atoi_Nil by auto
  have "- (2 ^ 63) \<le> n * 1000000000" "n * 1000000000 < 2 ^ 63"
    using lo hi by simp_all
  then have "Duration_mul n Second = n * Second"
    by (simp add: Duration_mul_def Second_def int64_wrap_id)
  then show ?thesis
    using a ne by (simp add: calculateRetryDelay_def)
qed

lemma backoff_bounds:
  "1000000000 \<le> backoff attempt" "backoff attempt \<le> 30000000000"
proof -
  have "(1::int) \<le> 2 ^ attempt" by simp
  then have "(1000000000::int) \<le> 2 ^ attempt * 1000000000" by simp
  then show "1000000000 \<le> backoff attempt"
    by (simp add: backoff_def BaseRetryDelay_def MaxRetryDelay_def Second_def)
  show "backoff attempt \<le> 30000000000"
    by (simp add: backoff_def BaseRetryDelay_def MaxRetryDelay_def Second_def)
qed

lemma backoff_delay:
  assumes unusable: "resp_RetryAfter resp = []
      \<or> (Atoi (resp_RetryAfter resp) = None \<and> pt (resp_RetryAfter resp) = None)"
    and att: "attempt \<le> 33"
  shows "calculateRetryDelay pt now r resp attempt
           = Some (backoff attempt + r mod (backoff attempt div 4))"
proof -
  have p: "pow2_Duration attempt = Some (2 ^ attempt)"
    using att by (simp add: pow2_Duration_def)
  have "(2::int) ^ attempt \<le> 2 ^ 33"
    using att by (intro power_increasing) simp_all
  then have le: "(2::int) ^ attempt * 1000000000 \<le> 8589934592000000000"
    by simp
  have pos: "(0::int) < 2 ^ attempt * 1000000000" by simp
  have p63: "(2::int) ^ 63 = 9223372036854775808" by simp
  have "int64_wrap (2 ^ attempt * 1000000000) = 2 ^ attempt * 1000000000"
  proof (rule int64_wrap_id)
    show "- (2 ^ 63) \<le> (2::int) ^ attempt * 1000000000"
      using pos p63 by linarith
    show "(2::int) ^ attempt * 1000000000 < 2 ^ 63"
      using le p63 by linarith
  qed
  then have mul: "Duration_mul (2 ^ attempt) BaseRetryDelay = 2 ^ attempt * BaseRetryDelay"
    by (simp add: Duration_mul_def BaseRetryDelay_def Second_def)
  have b1: "1000000000 \<le> backoff attempt" and b2: "backoff attempt \<le> 30000000000"
    using backoff_bounds by simp_all
  have q: "go_quot (backoff attempt) 4 = backoff attempt div 4"
    using b1 by (simp add: go_quot_def)
  have qpos: "0 < backoff attempt div 4"
    using b1 by simp
  have j0: "0 \<le> r mod (backoff attempt div 4)"
    using qpos by simp
  have j1: "r mod (backoff attempt div 4) < backoff attempt div 4"
    using qpos by simp
  have "backoff attempt div 4 \<le> 7500000000"
    using b2 by simp
  then have "int64_wrap (backoff attempt + r mod (backoff attempt div 4))
               = backoff attempt + r mod (backoff attempt div 4)"
    using b1 b2 j0 j1 p63 by (intro int64_wrap_id) linarith+
  then have add: "Duration_add (backoff attempt) (r mod (backoff attempt div 4))
                   = backoff attempt + r mod (backoff attempt div 4)"
    by (simp add: Duration_add_def)
  have hdr: "(if resp_RetryAfter resp \<noteq> []
             then (case Atoi (resp_RetryAfter resp) of
                     Some seconds \<Rightarrow> Some (Duration_mul seconds Second)
                   | None \<Rightarrow>
                       (case pt (resp_RetryAfter resp) of
                          Some t \<Rightarrow> Some (time_Until now t)
                        | None \<Rightarrow> None))
             else None) = None"
    using unusable by auto
  show ?thesis
  proof (cases "MaxRetryDelay < 2 ^ attempt * BaseRetryDelay")
    case True
    then have e: "MaxRetryDelay = backoff attempt"
      by (simp add: backoff_def)
    have "Int63n r (go_quot MaxRetryDelay 4) = Some (r mod (backoff attempt div 4))"
      using q qpos by (simp add: Int63n_def e)
    then show ?thesis
      unfolding calculateRetryDelay_def Let_def hdr
      using p mul True add by (simp add: e [symmetric])
  next
    case False
    then have e: "2 ^ attempt * BaseRetryDelay = backoff attempt"
      by (simp add: backoff_def)
    have "Int63n r (go_quot (2 ^ attempt * BaseRetryDelay) 4) = Some (r mod (backoff attempt div 4))"
      using q qpos by (simp add: Int63n_def e)
    then show ?thesis
      unfolding calculateRetryDelay_def Let_def hdr
      using p mul False add by (simp add: e [symmetric])
  qed
qed

lemma calculateRetryDelay_no_panic:
  assumes "attempt \<le> 33"
  shows "calculateRetryDelay pt now r resp attempt \<noteq> None"
proof (cases "resp_RetryAfter resp = []
      \<or> (Atoi (resp_RetryAfter resp) = None \<and> pt (resp_RetryAfter resp) = None)")
  case True
  then show ?thesis
    using assms backoff_delay [where resp = resp and pt = pt and attempt = attempt
        and now = now and r = r]
    by simp
next
  case False
  then have ne: "resp_RetryAfter resp \<noteq> []"
    and some: "Atoi (resp_RetryAfter resp) \<noteq> None \<or> pt (resp_RetryAfter resp) \<noteq> None"
    by auto
  show ?thesis
  proof (cases "Atoi (resp_RetryAfter resp)")
    case (Some n)
    then show ?thesis using ne by (simp add: calculateRetryDelay_def)
  next
    case None
    then obtain t where "pt (resp_RetryAfter resp) = Some t" using some by auto
    then show ?thesis using ne None by (simp add: calculateRetryDelay_def)
  qed
qed

text \<open>
  C3, as the claim states it, fails: a \<^verbatim>\<open>Retry-After\<close> of 9223372037 seconds parses as
  an integer, but that many seconds do not fit the 64-bit nanosecond count of a
  \<^verbatim>\<open>Duration\<close>; the product wraps around and the computed delay is negative.
\<close>

theorem C3_retry_after_overflow:
  "Atoi (resp_RetryAfter (rate_limited ''9223372037'')) = Some 9223372037
   \<and> calculateRetryDelay ParseTime_none 0 0 (rate_limited ''9223372037'') 0
       = Some (- 9223372036709551616)
   \<and> calculateRetryDelay ParseTime_none 0 0 (rate_limited ''9223372037'') 0
       \<noteq> Some (9223372037 * Second)"
  by (simp add: calculateRetryDelay_def rate_limited_def Atoi_def digit_of_def Duration_mul_def
      Second_def int64_wrap_def)

text \<open>
  C3, amended. If the \<^verbatim>\<open>Retry-After\<close> header parses as an integer \<open>n\<close> between
  -9223372036 and 9223372036, the delay is exactly \<open>n\<close> seconds, with no jitter. If the
  header is absent, or parses neither as an integer nor as an HTTP date, and the attempt
  is at most 33 (\<^verbatim>\<open>doRequest\<close> passes 0, 1 or 2), the delay is the backoff
  \<open>min (2 ^ attempt * 1s) 30s\<close> plus a jitter that is at least 0 and less than a quarter
  of the backoff, so the delay is never below the backoff.
\<close>

theorem C3_retry_delay:
  "(Atoi (resp_RetryAfter resp) = Some n \<and> - 9223372036 \<le> n \<and> n \<le> 9223372036
      \<longrightarrow> calculateRetryDelay pt now r resp attempt = Some (n * Second))
   \<and> ((resp_RetryAfter resp = []
         \<or> (Atoi (resp_RetryAfter resp) = None \<and> pt (resp_RetryAfter resp) = None))
        \<and> attempt \<le> 33
      \<longrightarrow> (\<exists>jitter. calculateRetryDelay pt now r resp attempt = Some (backoff attempt + jitter)
             \<and> 0 \<le> jitter \<and> jitter < backoff attempt div 4
             \<and> backoff attempt \<le> backoff attempt + jitter))"
proof (intro conjI impI)
  assume "Atoi (resp_RetryAfter resp) = Some n \<and> - 9223372036 \<le> n \<and> n \<le> 9223372036"
  then show "calculateRetryDelay pt now r resp attempt = Some (n * Second)"
    using retry_after_seconds by blast
next
  assume h: "(resp_RetryAfter resp = []
         \<or> (Atoi (resp_RetryAfter resp) = None \<and> pt (resp_RetryAfter resp) = None))
        \<and> attempt \<le> 33"
  have b1: "1000000000 \<le> backoff attempt" using backoff_bounds by simp
  then have qpos: "0 < backoff attempt div 4" by simp
  have "calculateRetryDelay pt now r resp attempt
           = Some (backoff attempt + r mod (backoff attempt div 4))"
    using h backoff_delay by blast
  moreover have "0 \<le> r mod (backoff attempt div 4)" using qpos by simp
  moreover have "r mod (backoff attempt div 4) < backoff attempt div 4" using qpos by simp
  ultimately show "\<exists>jitter. calculateRetryDelay pt now r resp attempt = Some (backoff attempt + jitter)
             \<and> 0 \<le> jitter \<and> jitter < backoff attempt div 4
             \<and> backoff attempt \<le> backoff attempt + jitter"
    by auto
qed

theorem C3_retry_delay_witness:
  "Atoi (resp_RetryAfter (rate_limited ''120'')) = Some 120
   \<and> calculateRetryDelay ParseTime_none 0 1234567891 (rate_limited ''120'') 0 = Some (120 * Second)
   \<and> resp_RetryAfter (rate_limited []) = []
   \<and> (\<exists>jitter. calculateRetryDelay ParseTime_none 0 1234567891 (rate_limited []) 2
                  = Some (backoff 2 + jitter)
         \<and> 0 \<le> jitter \<and> jitter < backoff 2 div 4)"
proof -
  have a: "Atoi (resp_RetryAfter (rate_limited ''120'')) = Some 120"
    by (simp add: rate_limited_def Atoi_def digit_of_def)
  have b: "resp_RetryAfter (rate_limited []) = []"
    by (simp add: rate_limited_def)
  have "calculateRetryDelay ParseTime_none 0 1234567891 (rate_limited ''120'') 0 = Some (120 * Second)"
    using a C3_retry_delay [of "rate_limited ''120''" 120 ParseTime_none 0 1234567891 0] by simp
  moreover have "\<exists>jitter. calculateRetryDelay ParseTime_none 0 1234567891 (rate_limited []) 2
                  = Some (backoff 2 + jitter)
         \<and> 0 \<le> jitter \<and> jitter < backoff 2 div 4"
    using b C3_retry_delay [of "rate_limited []" 0 ParseTime_none 0 1234567891 2] by auto
  ultimately show ?thesis using a b by simp
qed

subsection \<open>The retry loop of doRequest\<close>

lemma loop_beyond:
  "MaxRetries < k \<Longrightarrow> doRequest_loop env m p b k =
     \<lparr>out_Result = Some (Inl (Other ''max retries exceeded'')), out_Requests = [], out_Waits = []\<rparr>"
  by (subst doRequest_loop.simps) simp

lemma loop_step:
  assumes "k < MaxRetries" and "env_NewRequestErr env = None"
    and "env_Do env k = DoResp resp" and "resp_StatusCode resp = 429"
    and "\<not> env_CtxDone env k"
  shows "\<exists>d. doRequest_loop env m p b k =
     (doRequest_loop env m p b (Suc k))
       \<lparr>out_Requests := \<lparr>req_Method = m, req_Path = p, req_Body = marshal_body b\<rparr>
                          # out_Requests (doRequest_loop env m p b (Suc k)),
        out_Waits := d # out_Waits (doRequest_loop env m p b (Suc k))\<rparr>"
proof -
  have "k \<le> 33" using assms(1) by (simp add: MaxRetries_def)
  then obtain d where
    "calculateRetryDelay (env_ParseTime env) (env_Now env k) (env_Rand env k) resp k = Some d"
    using calculateRetryDelay_no_panic by blast
  then have "doRequest_loop env m p b k =
     (doRequest_loop env m p b (Suc k))
       \<lparr>out_Requests := \<lparr>req_Method = m, req_Path = p, req_Body = marshal_body b\<rparr>
                          # out_Requests (doRequest_loop env m p b (Suc k)),
        out_Waits := d # out_Waits (doRequest_loop env m p b (Suc k))\<rparr>"
    using assms by (subst doRequest_loop.simps) (simp add: Let_def)
  then show ?thesis ..
qed

lemma loop_stop:
  assumes "\<not> (k < MaxRetries \<and> env_NewRequestErr env = None
              \<and> (\<exists>resp. env_Do env k = DoResp resp \<and> resp_StatusCode resp = 429)
              \<and> \<not> env_CtxDone env k)"
  shows "length (out_Requests (doRequest_loop env m p b k)) \<le> 1"
proof -
  have "k \<le> MaxRetries \<Longrightarrow> k \<le> 33" by (simp add: MaxRetries_def)
  then show ?thesis
    using assms calculateRetryDelay_no_panic [of k]
    by (subst doRequest_loop.simps)
       (auto simp: Let_def split: option.splits do_result.splits)
qed

lemma loop_returns_response:
  assumes "k \<le> MaxRetries" and "env_NewRequestErr env = None"
    and "env_Do env k = DoResp r" and "resp_StatusCode r \<noteq> 429 \<or> k = MaxRetries"
  shows "out_Result (doRequest_loop env m p b k) = Some (Inr r)
       \<and> length (out_Requests (doRequest_loop env m p b k)) = 1"
  using assms by (subst doRequest_loop.simps, subst doRequest_loop.simps) (auto simp: Let_def)

lemma loop_sends_nothing:
  assumes "MaxRetries < k \<or> env_NewRequestErr env \<noteq> None"
  shows "out_Requests (doRequest_loop env m p b k) = []"
  using assms by (subst doRequest_loop.simps) (auto simp: Let_def split: option.splits)

lemma loop_requests_bound:
  "length (out_Requests (doRequest_loop env m p b k)) \<le> Suc MaxRetries - k"
proof (induction "Suc MaxRetries - k" arbitrary: k)
  case 0
  then have "MaxRetries < k" by simp
  then show ?case by (simp add: loop_beyond)
next
  case (Suc n)
  then have kle: "k \<le> MaxRetries" by simp
  show ?case
  proof (cases "k < MaxRetries \<and> env_NewRequestErr env = None
              \<and> (\<exists>resp. env_Do env k = DoResp resp \<and> resp_StatusCode resp = 429)
              \<and> \<not> env_CtxDone env k")
    case True
    then obtain resp where c: "k < MaxRetries" "env_NewRequestErr env = None"
      "env_Do env k = DoResp resp" "resp_StatusCode resp = 429" "\<not> env_CtxDone env k"
      by blast
    from loop_step [OF c, of m p b] obtain d where
      "doRequest_loop env m p b k =
         (doRequest_loop env m p b (Suc k))
           \<lparr>out_Requests := \<lparr>req_Method = m, req_Path = p, req_Body = marshal_body b\<rparr>
                              # out_Requests (doRequest_loop env m p b (Suc k)),
            out_Waits := d # out_Waits (doRequest_loop env m p b (Suc k))\<rparr>" ..
    then have "length (out_Requests (doRequest_loop env m p b k))
                 = Suc (length (out_Requests (doRequest_loop env m p b (Suc k))))"
      by simp
    moreover have "length (out_Requests (doRequest_loop env m p b (Suc k))) \<le> Suc MaxRetries - Suc k"
      using Suc.hyps(1) [of "Suc k"] Suc.hyps(2) by simp
    ultimately show ?thesis using c(1) by simp
  next
    case False
    then have "length (out_Requests (doRequest_loop env m p b k)) \<le> 1"
      by (rule loop_stop)
    then show ?thesis using kle by simp
  qed
qed

lemma loop_retry_after_429:
  "Suc i < length (out_Requests (doRequest_loop env m p b k))
   \<Longrightarrow> \<exists>r. env_Do env (k + i) = DoResp r \<and> resp_StatusCode r = 429"
proof (induction i arbitrary: k)
  case 0
  show ?case
  proof (cases "k < MaxRetries \<and> env_NewRequestErr env = None
              \<and> (\<exists>resp. env_Do env k = DoResp resp \<and> resp_StatusCode resp = 429)
              \<and> \<not> env_CtxDone env k")
    case True
    then show ?thesis by simp
  next
    case False
    then have "length (out_Requests (doRequest_loop env m p b k)) \<le> 1"
      by (rule loop_stop)
    with "0.prems" show ?thesis by simp
  qed
next
  case (Suc i)
  show ?case
  proof (cases "k < MaxRetries \<and> env_NewRequestErr env = None
              \<and> (\<exists>resp. env_Do env k = DoResp resp \<and> resp_StatusCode resp = 429)
              \<and> \<not> env_CtxDone env k")
    case True
    then obtain resp where c: "k < MaxRetries" "env_NewRequestErr env = None"
      "env_Do env k = DoResp resp" "resp_StatusCode resp = 429" "\<not> env_CtxDone env k"
      by blast
    from loop_step [OF c, of m p b] obtain d where
      "doRequest_loop env m p b k =
         (doRequest_loop env m p b (Suc k))
           \<lparr>out_Requests := \<lparr>req_Method = m, req_Path = p, req_Body = marshal_body b\<rparr>
                              # out_Requests (doRequest_loop env m p b (Suc k)),
            out_Waits := d # out_Waits (doRequest_loop env m p b (Suc k))\<rparr>" ..
    then have "length (out_Requests (doRequest_loop env m p b k))
                 = Suc (length (out_Requests (doRequest_loop env m p b (Suc k))))"
      by simp
    with Suc.prems have "Suc i < length (out_Requests (doRequest_loop env m p b (Suc k)))"
      by simp
    then have "\<exists>r. env_Do env (Suc k + i) = DoResp r \<and> resp_StatusCode r = 429"
      by (rule Suc.IH)
    then show ?thesis by simp
  next
    case False
    then have "length (out_Requests (doRequest_loop env m p b k)) \<le> 1"
      by (rule loop_stop)
    with Suc.prems show ?thesis by simp
  qed
qed

lemma loop_other_status_returned:
  "i < length (out_Requests (doRequest_loop env m p b k))
   \<Longrightarrow> env_Do env (k + i) = DoResp r \<Longrightarrow> resp_StatusCode r \<noteq> 429
   \<Longrightarrow> out_Result (doRequest_loop env m p b k) = Some (Inr r)
       \<and> length (out_Requests (doRequest_loop env m p b k)) = Suc i"
proof (induction i arbitrary: k)
  case 0
  have "k \<le> MaxRetries \<and> env_NewRequestErr env = None"
  proof (rule ccontr)
    assume "\<not> (k \<le> MaxRetries \<and> env_NewRequestErr env = None)"
    then have "MaxRetries < k \<or> env_NewRequestErr env \<noteq> None" by auto
    then have "out_Requests (doRequest_loop env m p b k) = []"
      by (rule loop_sends_nothing)
    with "0.prems"(1) show False by simp
  qed
  then show ?case
    using loop_returns_response [of k env r m p b] "0.prems" by simp
next
  case (Suc i)
  show ?case
  proof (cases "k < MaxRetries \<and> env_NewRequestErr env = None
              \<and> (\<exists>resp. env_Do env k = DoResp resp \<and> resp_StatusCode resp = 429)
              \<and> \<not> env_CtxDone env k")
    case True
    then obtain resp where c: "k < MaxRetries" "env_NewRequestErr env = None"
      "env_Do env k = DoResp resp" "resp_StatusCode resp = 429" "\<not> env_CtxDone env k"
      by blast
    from loop_step [OF c, of m p b] obtain d where
      e: "doRequest_loop env m p b k =
         (doRequest_loop env m p b (Suc k))
           \<lparr>out_Requests := \<lparr>req_Method = m, req_Path = p, req_Body = marshal_body b\<rparr>
                              # out_Requests (doRequest_loop env m p b (Suc k)),
            out_Waits := d # out_Waits (doRequest_loop env m p b (Suc k))\<rparr>" ..
    then have len: "length (out_Requests (doRequest_loop env m p b k))
                 = Suc (length (out_Requests (doRequest_loop env m p b (Suc k))))"
      and res: "out_Result (doRequest_loop env m p b k)
                 = out_Result (doRequest_loop env m p b (Suc k))"
      by simp_all
    from len Suc.prems(1) have "i < length (out_Requests (doRequest_loop env m p b (Suc k)))"
      by simp
    moreover have "env_Do env (Suc k + i) = DoResp r" using Suc.prems(2) by simp
    ultimately have "out_Result (doRequest_loop env m p b (Suc k)) = Some (Inr r)
       \<and> length (out_Requests (doRequest_loop env m p b (Suc k))) = Suc i"
      using Suc.prems(3) by (rule Suc.IH)
    then show ?thesis using len res by simp
  next
    case False
    then have "length (out_Requests (doRequest_loop env m p b k)) \<le> 1"
      by (rule loop_stop)
    with Suc.prems(1) show ?thesis by simp
  qed
qed

lemma loop_exhausted:
  assumes "k \<le> MaxRetries" and "env_NewRequestErr env = None"
    and "\<forall>i. k \<le> i \<and> i \<le> MaxRetries \<longrightarrow> (\<exists>r. env_Do env i = DoResp r \<and> resp_StatusCode r = 429)"
    and "\<forall>i. k \<le> i \<and> i < MaxRetries \<longrightarrow> \<not> env_CtxDone env i"
    and "env_Do env MaxRetries = DoResp r"
  shows "out_Result (doRequest_loop env m p b k) = Some (Inr r)
       \<and> length (out_Requests (doRequest_loop env m p b k)) = Suc MaxRetries - k"
  using assms
proof (induction "MaxRetries - k" arbitrary: k)
  case 0
  then have "k = MaxRetries" by simp
  then show ?case
    using loop_returns_response [of k env r m p b] "0.prems" by simp
next
  case (Suc n)
  then have lt: "k < MaxRetries" by simp
  obtain resp where resp: "env_Do env k = DoResp resp" "resp_StatusCode resp = 429"
    using Suc.prems(3) lt by (meson le_refl less_imp_le)
  have nd: "\<not> env_CtxDone env k" using Suc.prems(4) lt by simp
  from loop_step [OF lt Suc.prems(2) resp nd, of m p b] obtain d where
      e: "doRequest_loop env m p b k =
         (doRequest_loop env m p b (Suc k))
           \<lparr>out_Requests := \<lparr>req_Method = m, req_Path = p, req_Body = marshal_body b\<rparr>
                              # out_Requests (doRequest_loop env m p b (Suc k)),
            out_Waits := d # out_Waits (doRequest_loop env m p b (Suc k))\<rparr>" ..
  then have len: "length (out_Requests (doRequest_loop env m p b k))
                 = Suc (length (out_Requests (doRequest_loop env m p b (Suc k))))"
      and res: "out_Result (doRequest_loop env m p b k)
                 = out_Result (doRequest_loop env m p b (Suc k))"
    by simp_all
  have "out_Result (doRequest_loop env m p b (Suc k)) = Some (Inr r)
       \<and> length (out_Requests (doRequest_loop env m p b (Suc k))) = Suc MaxRetries - Suc k"
  proof (rule Suc.hyps(1))
    show "n = MaxRetries - Suc k" using Suc.hyps(2) by simp
    show "Suc k \<le> MaxRetries" using lt by simp
    show "env_NewRequestErr env = None" by (rule Suc.prems(2))
    show "\<forall>i. Suc k \<le> i \<and> i \<le> MaxRetries \<longrightarrow> (\<exists>r. env_Do env i = DoResp r \<and> resp_StatusCode r = 429)"
      using Suc.prems(3) by simp
    show "\<forall>i. Suc k \<le> i \<and> i < MaxRetries \<longrightarrow> \<not> env_CtxDone env i"
      using Suc.prems(4) by simp
    show "env_Do env MaxRetries = DoResp r" by (rule Suc.prems(5))
  qed
  then show ?case using len res lt by simp
qed

lemma loop_no_panic: "out_Result (doRequest_loop env m p b k) \<noteq> None"
proof (induction "Suc MaxRetries - k" arbitrary: k)
  case 0
  then have "MaxRetries < k" by simp
  then show ?case by (simp add: loop_beyond)
next
  case (Suc n)
  then have kle: "k \<le> MaxRetries" by simp
  then have k33: "k \<le> 33" by (simp add: MaxRetries_def)
  show ?case
  proof (cases "k < MaxRetries \<and> env_NewRequestErr env = None
              \<and> (\<exists>resp. env_Do env k = DoResp resp \<and> resp_StatusCode resp = 429)
              \<and> \<not> env_CtxDone env k")
    case True
    then obtain resp where c: "k < MaxRetries" "env_NewRequestErr env = None"
      "env_Do env k = DoResp resp" "resp_StatusCode resp = 429" "\<not> env_CtxDone env k"
      by blast
    from loop_step [OF c, of m p b] obtain d where
      "doRequest_loop env m p b k =
         (doRequest_loop env m p b (Suc k))
           \<lparr>out_Requests := \<lparr>req_Method = m, req_Path = p, req_Body = marshal_body b\<rparr>
                              # out_Requests (doRequest_loop env m p b (Suc k)),
            out_Waits := d # out_Waits (doRequest_loop env m p b (Suc k))\<rparr>" ..
    then have "out_Result (doRequest_loop env m p b k)
                 = out_Result (doRequest_loop env m p b (Suc k))"
      by simp
    then show ?thesis using Suc.hyps(1) [of "Suc k"] Suc.hyps(2) by simp
  next
    case False
    then show ?thesis
      by (subst doRequest_loop.simps)
         (auto simp: Let_def calculateRetryDelay_no_panic [OF k33]
            split: option.splits do_result.splits)
  qed
qed

lemma doRequest_marshal_fails:
  "out_Requests (doRequest env m p (Some (MarshalFails e))) = []"
  by (simp add: doRequest_def)

lemma doRequest_loop_eq:
  "\<forall>e. b \<noteq> Some (MarshalFails e) \<Longrightarrow> doRequest env m p b = doRequest_loop env m p b 0"
  by (auto simp: doRequest_def split: option.splits body.splits)

text \<open>
  C4. Request \<open>i\<close> of the outcome is the one sent on attempt \<open>i\<close>. \<^verbatim>\<open>doRequest\<close> sends
  at most four requests, that is at most three retries. A further request is sent only
  after a response with status 429. A response with any other status, 5xx included, is
  returned on the attempt that produced it, and no request follows it. When all four
  attempts answer 429 (and the wait is not cancelled), the response of the last attempt
  itself is returned, not an error.
\<close>

theorem C4_doRequest_retries_only_429:
  "length (out_Requests (doRequest env m p b)) \<le> 4
   \<and> (\<forall>i. Suc i < length (out_Requests (doRequest env m p b))
          \<longrightarrow> (\<exists>r. env_Do env i = DoResp r \<and> resp_StatusCode r = 429))
   \<and> (\<forall>i r. i < length (out_Requests (doRequest env m p b))
            \<and> env_Do env i = DoResp r \<and> resp_StatusCode r \<noteq> 429
          \<longrightarrow> out_Result (doRequest env m p b) = Some (Inr r)
              \<and> length (out_Requests (doRequest env m p b)) = Suc i)
   \<and> ((\<forall>e. b \<noteq> Some (MarshalFails e)) \<and> env_NewRequestErr env = None
        \<and> (\<forall>i\<le>3. \<exists>r. env_Do env i = DoResp r \<and> resp_StatusCode r = 429)
        \<and> (\<forall>i<3. \<not> env_CtxDone env i)
       \<longrightarrow> (\<exists>r. env_Do env 3 = DoResp r \<and> resp_StatusCode r = 429
                \<and> out_Result (doRequest env m p b) = Some (Inr r))
           \<and> length (out_Requests (doRequest env m p b)) = 4)"
proof (cases "\<exists>e. b = Some (MarshalFails e)")
  case True
  then obtain e where "b = Some (MarshalFails e)" ..
  then have "out_Requests (doRequest env m p b) = []"
    by (simp add: doRequest_marshal_fails)
  then show ?thesis using True by simp
next
  case False
  then have eq: "doRequest env m p b = doRequest_loop env m p b 0"
    by (simp add: doRequest_loop_eq)
  have one: "length (out_Requests (doRequest_loop env m p b 0)) \<le> 4"
    using loop_requests_bound [of env m p b 0] by (simp add: MaxRetries_def)
  have two: "\<forall>i. Suc i < length (out_Requests (doRequest_loop env m p b 0))
          \<longrightarrow> (\<exists>r. env_Do env i = DoResp r \<and> resp_StatusCode r = 429)"
  proof (intro allI impI)
    fix i
    assume "Suc i < length (out_Requests (doRequest_loop env m p b 0))"
    then show "\<exists>r. env_Do env i = DoResp r \<and> resp_StatusCode r = 429"
      using loop_retry_after_429 [of i env m p b 0] by simp
  qed
  have three: "\<forall>i r. i < length (out_Requests (doRequest_loop env m p b 0))
            \<and> env_Do env i = DoResp r \<and> resp_StatusCode r \<noteq> 429
          \<longrightarrow> out_Result (doRequest_loop env m p b 0) = Some (Inr r)
              \<and> length (out_Requests (doRequest_loop env m p b 0)) = Suc i"
  proof (intro allI impI)
    fix i r
    assume "i < length (out_Requests (doRequest_loop env m p b 0))
            \<and> env_Do env i = DoResp r \<and> resp_StatusCode r \<noteq> 429"
    then show "out_Result (doRequest_loop env m p b 0) = Some (Inr r)
              \<and> length (out_Requests (doRequest_loop env m p b 0)) = Suc i"
      using loop_other_status_returned [of i env m p b 0 r] by simp
  qed
  have four: "env_NewRequestErr env = None
        \<and> (\<forall>i\<le>3. \<exists>r. env_Do env i = DoResp r \<and> resp_StatusCode r = 429)
        \<and> (\<forall>i<3. \<not> env_CtxDone env i)
       \<longrightarrow> (\<exists>r. env_Do env 3 = DoResp r \<and> resp_StatusCode r = 429
                \<and> out_Result (doRequest_loop env m p b 0) = Some (Inr r))
           \<and> length (out_Requests (doRequest_loop env m p b 0)) = 4"
  proof (intro impI)
    assume h: "env_NewRequestErr env = None
        \<and> (\<forall>i\<le>3. \<exists>r. env_Do env i = DoResp r \<and> resp_StatusCode r = 429)
        \<and> (\<forall>i<3. \<not> env_CtxDone env i)"
    then obtain r where r: "env_Do env 3 = DoResp r" "resp_StatusCode r = 429"
      by auto
    have "out_Result (doRequest_loop env m p b 0) = Some (Inr r)
       \<and> length (out_Requests (doRequest_loop env m p b 0)) = Suc MaxRetries - 0"
    proof (rule loop_exhausted)
      show "0 \<le> MaxRetries" by simp
      show "env_NewRequestErr env = None" using h by simp
      show "\<forall>i. 0 \<le> i \<and> i \<le> MaxRetries
              \<longrightarrow> (\<exists>r. env_Do env i = DoResp r \<and> resp_StatusCode r = 429)"
        using h by (simp add: MaxRetries_def)
      show "\<forall>i. 0 \<le> i \<and> i < MaxRetries \<longrightarrow> \<not> env_CtxDone env i"
        using h by (simp add: MaxRetries_def)
      show "env_Do env MaxRetries = DoResp r" using r by (simp add: MaxRetries_def)
    qed
    then show "(\<exists>r. env_Do env 3 = DoResp r \<and> resp_StatusCode r = 429
                \<and> out_Result (doRequest_loop env m p b 0) = Some (Inr r))
           \<and> length (out_Requests (doRequest_loop env m p b 0)) = 4"
      using r by (auto simp: MaxRetries_def)
  qed
  show ?thesis
    unfolding eq using one two three four False by blast
qed

theorem C4_doRequest_retries_only_429_witness:
  "out_Result (doRequest env_always_429 GET ''/organizations/org_1'' None)
     = Some (Inr (rate_limited ''1''))
   \<and> length (out_Requests (doRequest env_always_429 GET ''/organizations/org_1'' None)) = 4
   \<and> out_Result (doRequest env_429_then_500 GET ''/organizations/org_1'' None)
     = Some (Inr server_error)
   \<and> length (out_Requests (doRequest env_429_then_500 GET ''/organizations/org_1'' None)) = 2"
proof -
  have a: "(\<forall>e. (None :: body option) \<noteq> Some (MarshalFails e))
        \<and> env_NewRequestErr env_always_429 = None
        \<and> (\<forall>i\<le>3. \<exists>r. env_Do env_always_429 i = DoResp r \<and> resp_StatusCode r = 429)
        \<and> (\<forall>i<3. \<not> env_CtxDone env_always_429 i)"
    by (simp add: env_always_429_def rate_limited_def)
  have a3: "env_Do env_always_429 3 = DoResp (rate_limited ''1'')"
    by (simp add: env_always_429_def)
  have first: "out_Result (doRequest env_always_429 GET ''/organizations/org_1'' None)
     = Some (Inr (rate_limited ''1''))
   \<and> length (out_Requests (doRequest env_always_429 GET ''/organizations/org_1'' None)) = 4"
    using a a3
      C4_doRequest_retries_only_429 [of env_always_429 GET "''/organizations/org_1''" None,
        THEN conjunct2, THEN conjunct2, THEN conjunct2, rule_format]
    by simp
  have len: "1 < length (out_Requests (doRequest env_429_then_500 GET ''/organizations/org_1'' None))"
    by code_simp
  have b: "env_Do env_429_then_500 1 = DoResp server_error \<and> resp_StatusCode server_error \<noteq> 429"
    by (simp add: env_429_then_500_def env_always_429_def server_error_def)
  have second: "out_Result (doRequest env_429_then_500 GET ''/organizations/org_1'' None)
     = Some (Inr server_error)
   \<and> length (out_Requests (doRequest env_429_then_500 GET ''/organizations/org_1'' None)) = 2"
    using len b
      C4_doRequest_retries_only_429 [of env_429_then_500 GET "''/organizations/org_1''" None,
        THEN conjunct2, THEN conjunct2, THEN conjunct1, rule_format, of 1 server_error]
    by simp
  show ?thesis using first second by simp
qed

subsection \<open>Organization: the domains read back\<close>

lemma duplicate_pairs_distinct: "distinct xs \<Longrightarrow> duplicate_pairs xs = []"
proof (induction xs)
  case Nil
  show ?case by simp
next
  case (Cons x xs)
  then have "filter (\<lambda>y. y = x) xs = []"
    by (auto simp: filter_empty_conv)
  with Cons show ?case by simp
qed

lemma duplicate_pairs_repeated: "\<not> distinct xs \<Longrightarrow> duplicate_pairs xs \<noteq> []"
proof (induction xs)
  case Nil
  then show ?case by simp
next
  case (Cons x xs)
  show ?case
  proof (cases "x \<in> set xs")
    case True
    then have "filter (\<lambda>y. y = x) xs \<noteq> []"
      by (auto simp: filter_empty_conv)
    then show ?thesis by simp
  next
    case False
    with Cons.prems have "\<not> distinct xs" by simp
    then show ?thesis using Cons.IH by simp
  qed
qed

lemma SetValueFrom_distinct: "distinct xs \<Longrightarrow> SetValueFrom xs = (SetValue xs, [])"
  by (simp add: SetValueFrom_def duplicate_pairs_distinct has_error_def)

lemma SetValueFrom_repeated:
  "\<not> distinct xs \<Longrightarrow> fst (SetValueFrom xs) = SetUnknown \<and> has_error (snd (SetValueFrom xs))"
proof -
  assume "\<not> distinct xs"
  then obtain e es where "duplicate_pairs xs = e # es"
    using duplicate_pairs_repeated [of xs] by (cases "duplicate_pairs xs") auto
  then show ?thesis
    by (simp add: SetValueFrom_def has_error_def)
qed

lemma Read_repeated_domains:
  "GetOrganization (ValueString (orgm_ID state)) = Inr org
   \<Longrightarrow> \<not> distinct (map dom_Domain (org_Domains org))
   \<Longrightarrow> has_error (Diagnostics (OrganizationResource_Read GetOrganization state))
       \<and> State (OrganizationResource_Read GetOrganization state) = StateKept"
proof -
  assume g: "GetOrganization (ValueString (orgm_ID state)) = Inr org"
    and d: "\<not> distinct (map dom_Domain (org_Domains org))"
  from d have ne: "org_Domains org \<noteq> []" by auto
  obtain v ds where sv: "SetValueFrom (map dom_Domain (org_Domains org)) = (v, ds)"
    by (cases "SetValueFrom (map dom_Domain (org_Domains org))")
  with SetValueFrom_repeated [OF d] have "has_error ds" by simp
  then show ?thesis
    using g ne sv by (simp add: OrganizationResource_Read_def Let_def)
qed

text \<open>
  C6, as the claim states it, fails: when the response lists the same domain twice,
  \<^verbatim>\<open>types.SetValueFrom\<close> reports an error, and Read returns with that error and without
  setting the state, so the domains of the response are not persisted.
\<close>

theorem C6_read_repeated_domain_is_rejected:
  "has_error (Diagnostics (OrganizationResource_Read
       (get_returns_organization [acme_domain, acme_domain]) (organization_model SetNull)))
   \<and> State (OrganizationResource_Read
       (get_returns_organization [acme_domain, acme_domain]) (organization_model SetNull))
     = StateKept"
  by (simp add: OrganizationResource_Read_def get_returns_organization_def organization_with_def
      acme_domain_def organization_model_def SetValueFrom_def has_error_def Let_def)

text \<open>
  C6, amended. When \<^verbatim>\<open>GetOrganization\<close> returns an organization whose domain strings
  are pairwise distinct, Read sets the state without diagnostics; the persisted domains
  are the plain domain strings of the response's domain objects, and when the response
  has no domains they are the null value, which is not the empty set.
\<close>

theorem C6_read_domains:
  "GetOrganization (ValueString (orgm_ID state)) = Inr org
   \<Longrightarrow> distinct (map dom_Domain (org_Domains org))
   \<Longrightarrow> \<exists>st. OrganizationResource_Read GetOrganization state = \<lparr>Diagnostics = [], State = StateSet st\<rparr>
     \<and> orgm_Domains st
          = (if org_Domains org = [] then SetNull else SetValue (map dom_Domain (org_Domains org)))
     \<and> (org_Domains org = [] \<longrightarrow> orgm_Domains st \<noteq> SetValue [])"
  by (simp add: OrganizationResource_Read_def SetValueFrom_distinct has_error_def Let_def)

theorem C6_read_domains_witness:
  "(\<exists>st. OrganizationResource_Read (get_returns_organization []) (organization_model (SetValue [''old.example'']))
            = \<lparr>Diagnostics = [], State = StateSet st\<rparr>
        \<and> orgm_Domains st = SetNull)
   \<and> (\<exists>st. OrganizationResource_Read (get_returns_organization [acme_domain]) (organization_model SetNull)
            = \<lparr>Diagnostics = [], State = StateSet st\<rparr>
        \<and> orgm_Domains st = SetValue [''acme.com''])"
proof -
  have a: "get_returns_organization [] (ValueString (orgm_ID (organization_model (SetValue [''old.example'']))))
             = Inr (organization_with [])"
    by (simp add: get_returns_organization_def)
  have b: "get_returns_organization [acme_domain] (ValueString (orgm_ID (organization_model SetNull)))
             = Inr (organization_with [acme_domain])"
    by (simp add: get_returns_organization_def)
  have d0: "org_Domains (organization_with []) = []"
    by (simp add: organization_with_def)
  have d1: "org_Domains (organization_with [acme_domain]) \<noteq> []"
    "map dom_Domain (org_Domains (organization_with [acme_domain])) = [''acme.com'']"
    by (simp_all add: organization_with_def acme_domain_def)
  have e0: "distinct (map dom_Domain (org_Domains (organization_with [])))"
    by (simp add: d0)
  have e1: "distinct (map dom_Domain (org_Domains (organization_with [acme_domain])))"
    by (simp add: d1)
  from C6_read_domains [of "get_returns_organization []"
        "organization_model (SetValue [''old.example''])" "organization_with []", OF a e0]
  have r0: "\<exists>st. OrganizationResource_Read (get_returns_organization [])
                   (organization_model (SetValue [''old.example'']))
            = \<lparr>Diagnostics = [], State = StateSet st\<rparr>
        \<and> orgm_Domains st = SetNull"
    unfolding d0 by auto
  from C6_read_domains [of "get_returns_organization [acme_domain]"
        "organization_model SetNull" "organization_with [acme_domain]", OF b e1]
  have r1: "\<exists>st. OrganizationResource_Read (get_returns_organization [acme_domain])
                   (organization_model SetNull)
            = \<lparr>Diagnostics = [], State = StateSet st\<rparr>
        \<and> orgm_Domains st = SetValue [''acme.com'']"
    using d1 by auto
  show ?thesis using r0 r1 by (rule conjI)
qed

subsection \<open>Organization role: the slug sent on Create\<close>

text \<open>
  C7, as the claim states it, fails: Create puts no prefix in front of the slug. A
  configured slug \<^verbatim>\<open>billing-admin\<close> is sent as it is and does not start with
  \<^verbatim>\<open>org-\<close>.
\<close>

theorem C7_slug_without_prefix_is_forwarded:
  "orc_Slug (OrganizationRoleResource_createReq (role_model ''billing-admin'')) = ''billing-admin''
   \<and> \<not> prefix required_prefix (orc_Slug (OrganizationRoleResource_createReq (role_model ''billing-admin'')))"
  by (simp add: OrganizationRoleResource_createReq_def role_model_def required_prefix_def)

text \<open>
  C7, amended. The slug of the create request is the configured slug, unmodified, and
  that request is what is posted under the organization; so the slug sent starts with
  \<^verbatim>\<open>org-\<close> exactly when the configured slug does.
\<close>

theorem C7_slug_forwarded_unmodified:
  "orc_Slug (OrganizationRoleResource_createReq plan) = ValueString (orm_Slug plan)
   \<and> CreateOrganizationRole_sent (ValueString (orm_OrganizationID plan))
        (OrganizationRoleResource_createReq plan)
       = (POST, ''/authorization/organizations/'' @ ValueString (orm_OrganizationID plan) @ ''/roles'',
          OrganizationRoleResource_createReq plan)
   \<and> (prefix required_prefix (orc_Slug (OrganizationRoleResource_createReq plan))
        \<longleftrightarrow> prefix required_prefix (ValueString (orm_Slug plan)))"
  by (simp add: OrganizationRoleResource_createReq_def CreateOrganizationRole_sent_def Let_def)

theorem C7_slug_forwarded_unmodified_witness:
  "orc_Slug (OrganizationRoleResource_createReq (role_model ''org-billing-admin'')) = ''org-billing-admin''
   \<and> prefix required_prefix (orc_Slug (OrganizationRoleResource_createReq (role_model ''org-billing-admin'')))"
  using C7_slug_forwarded_unmodified [of "role_model ''org-billing-admin''"]
  by (simp add: role_model_def required_prefix_def)

subsection \<open>Connections and directories\<close>

text \<open>
  C5. The provider registers the connection and the directory resource, and their
  Create, Update and Delete handlers send POST, PUT and DELETE requests to
  \<^verbatim>\<open>/connections\<close> and \<^verbatim>\<open>/directories\<close>: the mutation paths are present and enabled.
\<close>

theorem C5_connection_directory_mutations_registered:
  "NewConnectionResource \<in> set Resources \<and> NewDirectoryResource \<in> set Resources
   \<and> ConnectionResource_request OpCreate ident js
       = Some \<lparr>req_Method = POST, req_Path = ''/connections'', req_Body = Some js\<rparr>
   \<and> ConnectionResource_request OpUpdate ident js
       = Some \<lparr>req_Method = PUT, req_Path = ''/connections/'' @ ident, req_Body = Some js\<rparr>
   \<and> ConnectionResource_request OpDelete ident js
       = Some \<lparr>req_Method = DELETE, req_Path = ''/connections/'' @ ident, req_Body = None\<rparr>
   \<and> DirectoryResource_request OpCreate ident js
       = Some \<lparr>req_Method = POST, req_Path = ''/directories'', req_Body = Some js\<rparr>
   \<and> DirectoryResource_request OpUpdate ident js
       = Some \<lparr>req_Method = PUT, req_Path = ''/directories/'' @ ident, req_Body = Some js\<rparr>
   \<and> DirectoryResource_request OpDelete ident js
       = Some \<lparr>req_Method = DELETE, req_Path = ''/directories/'' @ ident, req_Body = None\<rparr>"
  by (simp add: Resources_def CreateConnection_request_def UpdateConnection_request_def
      DeleteConnection_request_def CreateDirectory_request_def UpdateDirectory_request_def
      DeleteDirectory_request_def)

theorem C5_connection_directory_mutations_registered_witness:
  "NewConnectionResource \<in> set Resources
   \<and> map_option req_Method (ConnectionResource_request OpCreate ''conn_1'' ''{}'') = Some POST"
  using C5_connection_directory_mutations_registered [of "''conn_1''" "''{}''"] by simp

subsection \<open>Delete of a resource that is already gone\<close>

lemma parseAPIError_status:
  "body = [] \<or> StatusCode (fst (um body \<lparr>StatusCode = sc, Code = [], Message = [], Errors = []\<rparr>)) = sc
   \<Longrightarrow> StatusCode (parseAPIError um sc body) = sc"
  by (cases "um body \<lparr>StatusCode = sc, Code = [], Message = [], Errors = []\<rparr>")
     (auto simp: parseAPIError_def Let_def)

lemma doRequest_first_response:
  assumes "env_NewRequestErr env = None" and "env_Do env 0 = DoResp r"
    and "resp_StatusCode r \<noteq> 429"
  shows "out_Result (doRequest env m p None) = Some (Inr r)"
  using assms loop_returns_response [of 0 env r m p None] by (simp add: doRequest_def)

lemma Client_Delete_not_found:
  assumes "env_NewRequestErr env = None" and "env_Do env 0 = DoResp r"
    and "resp_StatusCode r = 404" and "resp_ReadErr r = None"
    and "resp_Body r = []
         \<or> StatusCode (fst (env_Unmarshal env (resp_Body r)
               \<lparr>StatusCode = 404, Code = [], Message = [], Errors = []\<rparr>)) = 404"
  shows "\<exists>e. Client_Delete env path = Some (Some (APIErr e)) \<and> StatusCode e = 404"
proof -
  have "out_Result (doRequest env DELETE path None) = Some (Inr r)"
    using assms(1-3) by (intro doRequest_first_response) simp_all
  moreover have "StatusCode (parseAPIError (env_Unmarshal env) 404 (resp_Body r)) = 404"
    using assms(5) by (rule parseAPIError_status)
  ultimately show ?thesis
    using assms(3,4) by (simp add: Client_Delete_def parseResponse_nil_def)
qed

lemma Client_Delete_success:
  assumes "env_NewRequestErr env = None" and "env_Do env 0 = DoResp r"
    and "resp_StatusCode r < 400" and "resp_ReadErr r = None"
  shows "Client_Delete env path = Some None"
proof -
  have "out_Result (doRequest env DELETE path None) = Some (Inr r)"
    using assms by (intro doRequest_first_response) simp_all
  then show ?thesis
    using assms(3,4) by (simp add: Client_Delete_def parseResponse_nil_def)
qed

lemma IsNotFound_wrapped: "StatusCode e = 404 \<Longrightarrow> IsNotFound (Wrapf msg (APIErr e))"
  by (simp add: IsNotFound_def APIError_Unwrap_def)

lemma OrganizationResource_Delete_other_error:
  "\<not> IsNotFound err \<Longrightarrow>
   OrganizationResource_Delete (client_fails err) ostate
     = Some \<lparr>Diagnostics = [DiagError ''Error Deleting Organization''
                 ''Could not delete organization, unexpected error: '' (Some err)],
             State = StateKept\<rparr>"
  by (simp add: OrganizationResource_Delete_def client_fails_def)

text \<open>
  What does hold. Let a first transport answer the delete request with a status below 400
  and a second one answer it with 404, both bodies being read to their end and the
  decoding of the 404 body leaving the status code of the error at 404. Then deleting an
  organization succeeds on both, with no diagnostic, and deleting a user, an organization
  membership and an organization role on the second succeeds as well. More generally,
  whenever the client's delete method fails with an error of the not-found kind, each of
  the four handlers returns without a diagnostic.
\<close>

lemma delete_not_found_is_success:
  assumes first: "env_NewRequestErr env1 = None" "env_Do env1 0 = DoResp r1"
      "resp_StatusCode r1 < 400" "resp_ReadErr r1 = None"
    and second: "env_NewRequestErr env2 = None" "env_Do env2 0 = DoResp r2"
      "resp_StatusCode r2 = 404" "resp_ReadErr r2 = None"
      "resp_Body r2 = []
         \<or> StatusCode (fst (env_Unmarshal env2 (resp_Body r2)
               \<lparr>StatusCode = 404, Code = [], Message = [], Errors = []\<rparr>)) = 404"
  shows "OrganizationResource_Delete (DeleteOrganization env1) ostate
           = Some \<lparr>Diagnostics = [], State = StateKept\<rparr>
       \<and> OrganizationResource_Delete (DeleteOrganization env2) ostate
           = Some \<lparr>Diagnostics = [], State = StateKept\<rparr>
       \<and> UserResource_Delete (DeleteUser env2) ustate
           = Some \<lparr>Diagnostics = [], State = StateKept\<rparr>
       \<and> OrganizationMembershipResource_Delete (DeleteOrganizationMembership env2) mstate
           = Some \<lparr>Diagnostics = [], State = StateKept\<rparr>
       \<and> OrganizationRoleResource_Delete (DeleteOrganizationRole env2) rstate
           = Some \<lparr>Diagnostics = [], State = StateKept\<rparr>
       \<and> (\<forall>err. IsNotFound err \<longrightarrow>
              OrganizationResource_Delete (client_fails err) ostate
                = Some \<lparr>Diagnostics = [], State = StateKept\<rparr>
            \<and> UserResource_Delete (client_fails err) ustate
                = Some \<lparr>Diagnostics = [], State = StateKept\<rparr>
            \<and> OrganizationMembershipResource_Delete (client_fails err) mstate
                = Some \<lparr>Diagnostics = [], State = StateKept\<rparr>
            \<and> OrganizationRoleResource_Delete (role_client_fails err) rstate
                = Some \<lparr>Diagnostics = [], State = StateKept\<rparr>)"
proof -
  have g: "\<forall>err. IsNotFound err \<longrightarrow>
              OrganizationResource_Delete (client_fails err) ostate
                = Some \<lparr>Diagnostics = [], State = StateKept\<rparr>
            \<and> UserResource_Delete (client_fails err) ustate
                = Some \<lparr>Diagnostics = [], State = StateKept\<rparr>
            \<and> OrganizationMembershipResource_Delete (client_fails err) mstate
                = Some \<lparr>Diagnostics = [], State = StateKept\<rparr>
            \<and> OrganizationRoleResource_Delete (role_client_fails err) rstate
                = Some \<lparr>Diagnostics = [], State = StateKept\<rparr>"
    by (simp add: OrganizationResource_Delete_def UserResource_Delete_def
        OrganizationMembershipResource_Delete_def OrganizationRoleResource_Delete_def
        client_fails_def role_client_fails_def)
  have nf: "\<And>path msg. \<exists>e. wrap_error msg (Client_Delete env2 path) = Some (Some (Wrapf msg (APIErr e)))
                \<and> IsNotFound (Wrapf msg (APIErr e))"
  proof -
    fix path msg
    obtain e where "Client_Delete env2 path = Some (Some (APIErr e))" "StatusCode e = 404"
      using Client_Delete_not_found [OF second] by blast
    then show "\<exists>e. wrap_error msg (Client_Delete env2 path) = Some (Some (Wrapf msg (APIErr e)))
                \<and> IsNotFound (Wrapf msg (APIErr e))"
      by (auto simp: wrap_error_def IsNotFound_wrapped)
  qed
  have ok: "\<And>path msg. wrap_error msg (Client_Delete env1 path) = Some None"
    using Client_Delete_success [OF first] by (simp add: wrap_error_def)
  have a: "OrganizationResource_Delete (DeleteOrganization env1) ostate
           = Some \<lparr>Diagnostics = [], State = StateKept\<rparr>"
    by (simp add: OrganizationResource_Delete_def DeleteOrganization_def ok)
  have b: "OrganizationResource_Delete (DeleteOrganization env2) ostate
           = Some \<lparr>Diagnostics = [], State = StateKept\<rparr>"
    using nf [of "''failed to delete organization''" "''/organizations/'' @ ValueString (orgm_ID ostate)"]
    by (auto simp: OrganizationResource_Delete_def DeleteOrganization_def)
  have c: "UserResource_Delete (DeleteUser env2) ustate
           = Some \<lparr>Diagnostics = [], State = StateKept\<rparr>"
    using nf [of "''failed to delete user''" "''/user_management/users/'' @ ValueString (usr_ID ustate)"]
    by (auto simp: UserResource_Delete_def DeleteUser_def)
  have d: "OrganizationMembershipResource_Delete (DeleteOrganizationMembership env2) mstate
           = Some \<lparr>Diagnostics = [], State = StateKept\<rparr>"
    using nf [of "''failed to delete organization membership''"
        "''/user_management/organization_memberships/'' @ ValueString (omm_ID mstate)"]
    by (auto simp: OrganizationMembershipResource_Delete_def DeleteOrganizationMembership_def)
  have e: "OrganizationRoleResource_Delete (DeleteOrganizationRole env2) rstate
           = Some \<lparr>Diagnostics = [], State = StateKept\<rparr>"
    using nf [of "''failed to delete organization role''"
        "''/authorization/organizations/'' @ ValueString (orm_OrganizationID rstate)
           @ ''/roles/'' @ ValueString (orm_Slug rstate)"]
    by (auto simp: OrganizationRoleResource_Delete_def DeleteOrganizationRole_def)
  show ?thesis using a b c d e g by simp
qed

lemma delete_not_found_is_success_example:
  "OrganizationResource_Delete (DeleteOrganization (env_answering no_content_response))
       (organization_model SetNull)
     = Some \<lparr>Diagnostics = [], State = StateKept\<rparr>
   \<and> OrganizationResource_Delete (DeleteOrganization (env_answering not_found_response))
       (organization_model SetNull)
     = Some \<lparr>Diagnostics = [], State = StateKept\<rparr>
   \<and> UserResource_Delete (DeleteUser (env_answering not_found_response)) (user_model ''Ada'')
     = Some \<lparr>Diagnostics = [], State = StateKept\<rparr>"
proof -
  have f: "env_NewRequestErr (env_answering no_content_response) = None"
    "env_Do (env_answering no_content_response) 0 = DoResp no_content_response"
    "resp_StatusCode no_content_response < 400"
    "resp_ReadErr no_content_response = None"
    by (simp_all add: env_answering_def env_always_429_def no_content_response_def)
  have s: "env_NewRequestErr (env_answering not_found_response) = None"
    "env_Do (env_answering not_found_response) 0 = DoResp not_found_response"
    "resp_StatusCode not_found_response = 404"
    "resp_ReadErr not_found_response = None"
    "resp_Body not_found_response = []
         \<or> StatusCode (fst (env_Unmarshal (env_answering not_found_response)
               (resp_Body not_found_response)
               \<lparr>StatusCode = 404, Code = [], Message = [], Errors = []\<rparr>)) = 404"
    by (simp_all add: env_answering_def env_always_429_def not_found_response_def)
  show ?thesis
    using delete_not_found_is_success [OF f s, of "organization_model SetNull"
        "user_model ''Ada''"]
    by simp
qed

text \<open>
  C8. A first delete of an organization, answered with 204, succeeds. A second delete is
  answered with 404 and a JSON body that has a member \<^verbatim>\<open>StatusCode\<close> of 500. The
  client's error then carries the status code 500 in place of 404, it is not of the
  not-found kind, and Delete reports it as an error, where the claim has the second
  delete succeed.
\<close>

theorem C8_delete_404_with_status_member_fails:
  "OrganizationResource_Delete (DeleteOrganization (env_answering no_content_response))
       (organization_model SetNull)
     = Some \<lparr>Diagnostics = [], State = StateKept\<rparr>
   \<and> env_Do env_status_member 0 = DoResp not_found_with_status_member
   \<and> resp_StatusCode not_found_with_status_member = 404
   \<and> DeleteOrganization env_status_member ''org_1''
     = Some (Some (Wrapf ''failed to delete organization''
         (APIErr \<lparr>StatusCode = 500, Code = [],
                  Message = ''The requested resource was not found'', Errors = []\<rparr>)))
   \<and> \<not> IsNotFound (Wrapf ''failed to delete organization''
         (APIErr \<lparr>StatusCode = 500, Code = [],
                  Message = ''The requested resource was not found'', Errors = []\<rparr>))
   \<and> OrganizationResource_Delete (DeleteOrganization env_status_member)
       (organization_model SetNull)
     = Some \<lparr>Diagnostics = [DiagError ''Error Deleting Organization''
                 ''Could not delete organization, unexpected error: ''
                 (Some (Wrapf ''failed to delete organization''
                    (APIErr \<lparr>StatusCode = 500, Code = [],
                             Message = ''The requested resource was not found'',
                             Errors = []\<rparr>)))],
             State = StateKept\<rparr>"
proof -
  have ok: "Client_Delete (env_answering no_content_response) ''/organizations/org_1'' = Some None"
    by (rule Client_Delete_success [of _ no_content_response])
       (simp_all add: env_answering_def env_always_429_def no_content_response_def)
  have env: "env_NewRequestErr env_status_member = None"
    "env_Do env_status_member 0 = DoResp not_found_with_status_member"
    "env_Unmarshal env_status_member = unmarshal_status_member"
    by (simp_all add: env_status_member_def env_answering_def env_always_429_def)
  have st: "resp_StatusCode not_found_with_status_member = 404"
    "resp_ReadErr not_found_with_status_member = None"
    "resp_Body not_found_with_status_member = status_member_body"
    by (simp_all add: not_found_with_status_member_def)
  have "out_Result (doRequest env_status_member DELETE ''/organizations/org_1'' None)
          = Some (Inr not_found_with_status_member)"
    using env(1,2) st(1) by (intro doRequest_first_response) simp_all
  moreover have "status_member_body \<noteq> []"
    by (simp add: status_member_body_def)
  ultimately have cd: "Client_Delete env_status_member ''/organizations/org_1''
      = Some (Some (APIErr \<lparr>StatusCode = 500, Code = [],
                  Message = ''The requested resource was not found'', Errors = []\<rparr>))"
    using env(3) st
    by (simp add: Client_Delete_def parseResponse_nil_def parseAPIError_def
        unmarshal_status_member_def default_message_def Let_def)
  have first: "OrganizationResource_Delete (DeleteOrganization (env_answering no_content_response))
       (organization_model SetNull)
     = Some \<lparr>Diagnostics = [], State = StateKept\<rparr>"
    using ok by (simp add: OrganizationResource_Delete_def DeleteOrganization_def wrap_error_def
        organization_model_def)
  have del: "DeleteOrganization env_status_member ''org_1''
     = Some (Some (Wrapf ''failed to delete organization''
         (APIErr \<lparr>StatusCode = 500, Code = [],
                  Message = ''The requested resource was not found'', Errors = []\<rparr>)))"
    using cd by (simp add: DeleteOrganization_def wrap_error_def)
  have nf: "\<not> IsNotFound (Wrapf ''failed to delete organization''
         (APIErr \<lparr>StatusCode = 500, Code = [],
                  Message = ''The requested resource was not found'', Errors = []\<rparr>))"
    by (simp add: IsNotFound_def APIError_Unwrap_def)
  have second: "OrganizationResource_Delete (DeleteOrganization env_status_member)
       (organization_model SetNull)
     = Some \<lparr>Diagnostics = [DiagError ''Error Deleting Organization''
                 ''Could not delete organization, unexpected error: ''
                 (Some (Wrapf ''failed to delete organization''
                    (APIErr \<lparr>StatusCode = 500, Code = [],
                             Message = ''The requested resource was not found'',
                             Errors = []\<rparr>)))],
             State = StateKept\<rparr>"
    using del nf by (simp add: OrganizationResource_Delete_def organization_model_def)
  show ?thesis using first env(2) st(1) del nf second by simp
qed

theorem C8_delete_404_with_status_member_fails_witness:
  "\<exists>d. OrganizationResource_Delete (DeleteOrganization env_status_member)
           (organization_model SetNull) = Some \<lparr>Diagnostics = [d], State = StateKept\<rparr>
        \<and> has_error [d]"
  using C8_delete_404_with_status_member_fails by (simp add: has_error_def)

subsection \<open>Organization role: import\<close>

lemma SplitN_2:
  "SplitN s sep 2 =
     (if sep \<in> set s then [takeWhile (\<lambda>c. c \<noteq> sep) s, tl (dropWhile (\<lambda>c. c \<noteq> sep) s)] else [s])"
  by (simp add: numeral_2_eq_2)


lemma ImportState_error_iff:
  "has_error (imp_Diagnostics (OrganizationRoleResource_ImportState s))
     \<longleftrightarrow> \<not> (CHR ''/'' \<in> set s \<and> takeWhile (\<lambda>c. c \<noteq> CHR ''/'') s \<noteq> []
            \<and> tl (dropWhile (\<lambda>c. c \<noteq> CHR ''/'') s) \<noteq> [])"
  by (simp add: OrganizationRoleResource_ImportState_def has_error_def Let_def SplitN_2)








subsection \<open>Errors without a kind\<close>

lemma default_message_nonempty: "default_message sc \<noteq> []"
  by (simp add: default_message_def)

lemma parseAPIError_message_nonempty: "Message (parseAPIError um sc body) \<noteq> []"
  by (cases "um body \<lparr>StatusCode = sc, Code = [], Message = [], Errors = []\<rparr>")
     (auto simp: parseAPIError_def Let_def default_message_nonempty)

lemma parseAPIError_decoded:
  "body \<noteq> [] \<Longrightarrow> um body \<lparr>StatusCode = sc, Code = [], Message = [], Errors = []\<rparr> = (d, True)
   \<Longrightarrow> Errors (parseAPIError um sc body) = Errors d
       \<and> StatusCode (parseAPIError um sc body) = StatusCode d"
  by (simp add: parseAPIError_def Let_def)

text \<open>
  C10. An \<^verbatim>\<open>APIError\<close> whose status is a 4xx other than 400, 401, 403, 404, 409 and
  429 unwraps to nil, and each of the seven kind predicates is false of it. A 422
  response nevertheless yields an error with a message (the synthesized one when the body
  is empty) and with the field-level errors that were decoded from its body.
\<close>

theorem C10_unspecified_client_error_has_no_kind:
  "(400 \<le> StatusCode e \<and> StatusCode e < 500 \<and> StatusCode e \<notin> {400, 401, 403, 404, 409, 429}
      \<longrightarrow> APIError_Unwrap e = None
        \<and> \<not> IsNotFound (APIErr e) \<and> \<not> IsUnauthorized (APIErr e) \<and> \<not> IsForbidden (APIErr e)
        \<and> \<not> IsBadRequest (APIErr e) \<and> \<not> IsConflict (APIErr e) \<and> \<not> IsRateLimited (APIErr e)
        \<and> \<not> IsInternalServerError (APIErr e))
   \<and> Message (parseAPIError um 422 body) \<noteq> []
   \<and> Message (parseAPIError um 422 []) = ''The request was well-formed but contained invalid data''
   \<and> (body \<noteq> [] \<and> um body \<lparr>StatusCode = 422, Code = [], Message = [], Errors = []\<rparr> = (d, True)
      \<longrightarrow> Errors (parseAPIError um 422 body) = Errors d)"
proof (intro conjI impI)
  assume h: "400 \<le> StatusCode e \<and> StatusCode e < 500
      \<and> StatusCode e \<notin> {400, 401, 403, 404, 409, 429}"
  then show u: "APIError_Unwrap e = None"
    by (simp add: APIError_Unwrap_def)
  show "\<not> IsNotFound (APIErr e)" using u by (simp add: IsNotFound_def)
  show "\<not> IsUnauthorized (APIErr e)" using u by (simp add: IsUnauthorized_def)
  show "\<not> IsForbidden (APIErr e)" using u by (simp add: IsForbidden_def)
  show "\<not> IsBadRequest (APIErr e)" using u by (simp add: IsBadRequest_def)
  show "\<not> IsConflict (APIErr e)" using u by (simp add: IsConflict_def)
  show "\<not> IsRateLimited (APIErr e)" using u by (simp add: IsRateLimited_def)
  show "\<not> IsInternalServerError (APIErr e)" using u by (simp add: IsInternalServerError_def)
next
  show "Message (parseAPIError um 422 body) \<noteq> []"
    by (rule parseAPIError_message_nonempty)
next
  show "Message (parseAPIError um 422 []) = ''The request was well-formed but contained invalid data''"
    by (simp add: parseAPIError_def default_message_def)
next
  assume "body \<noteq> [] \<and> um body \<lparr>StatusCode = 422, Code = [], Message = [], Errors = []\<rparr> = (d, True)"
  then show "Errors (parseAPIError um 422 body) = Errors d"
    using parseAPIError_decoded [of body um 422 d] by simp
qed

theorem C10_unspecified_client_error_has_no_kind_witness:
  "400 \<le> StatusCode unprocessable \<and> StatusCode unprocessable < 500
   \<and> StatusCode unprocessable \<notin> {400, 401, 403, 404, 409, 429}
   \<and> APIError_Unwrap unprocessable = None
   \<and> \<not> IsBadRequest (APIErr unprocessable) \<and> \<not> IsNotFound (APIErr unprocessable)
   \<and> Errors unprocessable \<noteq> []"
proof -
  have h: "400 \<le> StatusCode unprocessable \<and> StatusCode unprocessable < 500
      \<and> StatusCode unprocessable \<notin> {400, 401, 403, 404, 409, 429}"
    by (simp add: unprocessable_def)
  have "Errors unprocessable \<noteq> []" by (simp add: unprocessable_def)
  then show ?thesis
    using h C10_unspecified_client_error_has_no_kind [of unprocessable, THEN conjunct1] by simp
qed

end
